theory Spec2Isabelle
  imports Complex_Main "HOL-Library.Sublist" "HOL-Library.Multiset"
begin

section \<open>Common conventions\<close>

text \<open>
  Python floats are modelled as \<^typ>\<open>real\<close>: rounding is not modelled, and the
  properties proved about offsets and durations are the algebraic ones. Python strings
  are modelled as \<^typ>\<open>string\<close>, a Python dict as a map \<open>string \<rightharpoonup> 'v\<close>, and a raised
  exception as a value \<open>Inl e\<close> of a sum type.
\<close>

datatype error =
    KeyError string
  | SynthesisError string
  | IOError string
  | ZeroDivisionError
  | AttributeError string

definition bind_err :: "error + 'a \<Rightarrow> ('a \<Rightarrow> error + 'b) \<Rightarrow> error + 'b" where
  "bind_err r f = (case r of Inl e \<Rightarrow> Inl e | Inr v \<Rightarrow> f v)"

definition getitem :: "(string \<rightharpoonup> 'v) \<Rightarrow> string \<Rightarrow> error + 'v" where
  "getitem d k = (case d k of None \<Rightarrow> Inl (KeyError k) | Some v \<Rightarrow> Inr v)"

section \<open>template_quiz.py: the timing block of QuizTemplate.generate\<close>

text \<open>The durations of the nine loaded narration clips (\<open>aud_hook.duration\<close>, ...).\<close>

record clips =
  aud_hook :: real
  aud_q :: real
  aud_a :: real
  aud_b :: real
  aud_c :: real
  aud_d :: real
  aud_think :: real
  aud_expl :: real
  aud_cta :: real

record timeline =
  t_hook :: real
  t_q :: real
  t_a :: real
  t_b :: real
  t_c :: real
  t_d :: real
  t_think :: real
  t_ans :: real
  t_cta :: real
  t_outro :: real
  total_dur :: real

definition THINK_TIME :: real where
  "THINK_TIME = 3.0"

definition OUTRO_DURATION :: real where
  "OUTRO_DURATION = 4.0"

definition timing :: "clips \<Rightarrow> timeline" where
  "timing c =
    (let th = 0;
         tq = th + aud_hook c;
         ta = tq + aud_q c;
         tb = ta + aud_a c;
         tc = tb + aud_b c;
         td = tc + aud_c c;
         tthink = td + aud_d c;
         tans = tthink + THINK_TIME;
         tcta = tans + aud_expl c;
         toutro = tcta + aud_cta c
     in \<lparr> t_hook = th, t_q = tq, t_a = ta, t_b = tb, t_c = tc, t_d = td,
          t_think = tthink, t_ans = tans, t_cta = tcta, t_outro = toutro,
          total_dur = toutro + OUTRO_DURATION \<rparr>)"

text \<open>The start offsets in the template's role order.\<close>

definition starts :: "timeline \<Rightarrow> real list" where
  "starts T = [t_hook T, t_q T, t_a T, t_b T, t_c T, t_d T,
                t_think T, t_ans T, t_cta T, t_outro T]"

definition nonneg_clips :: "clips \<Rightarrow> bool" where
  "nonneg_clips c \<longleftrightarrow>
     0 \<le> aud_hook c \<and> 0 \<le> aud_q c \<and> 0 \<le> aud_a c \<and> 0 \<le> aud_b c \<and> 0 \<le> aud_c c \<and>
     0 \<le> aud_d c \<and> 0 \<le> aud_think c \<and> 0 \<le> aud_expl c \<and> 0 \<le> aud_cta c"

subsection \<open>The narration tasks and the worker pool\<close>

type_synonym script = "string \<rightharpoonup> string"

text \<open>
  The dict \<open>audio_tasks\<close>, as the list of its items in insertion order. Each
  \<open>script['...']\<close> raises \<open>KeyError\<close> when the field is missing.
\<close>

definition audio_tasks :: "script \<Rightarrow> error + (string \<times> string) list" where
  "audio_tasks script =
     bind_err (getitem script ''hook_spoken'') (\<lambda>hook.
     bind_err (getitem script ''question_spoken'') (\<lambda>question.
     bind_err (getitem script ''opt_a_spoken'') (\<lambda>opt_a.
     bind_err (getitem script ''opt_b_spoken'') (\<lambda>opt_b.
     bind_err (getitem script ''opt_c_spoken'') (\<lambda>opt_c.
     bind_err (getitem script ''opt_d_spoken'') (\<lambda>opt_d.
     bind_err (getitem script ''correct_opt'') (\<lambda>correct_opt.
     bind_err (getitem script ''explanation_spoken'') (\<lambda>explanation.
     bind_err (getitem script ''cta_spoken'') (\<lambda>cta.
       Inr [(''hook'', hook),
            (''question'', question),
            (''opt_a'', ''A: '' @ opt_a),
            (''opt_b'', ''B: '' @ opt_b),
            (''opt_c'', ''C: '' @ opt_c),
            (''opt_d'', ''D: '' @ opt_d),
            (''think'', ''Think fast!''),
            (''explanation'', ''The answer is '' @ correct_opt @ ''! '' @ explanation),
            (''cta'', cta)])))))))))"

text \<open>
  A finished future of \<open>generate_single_audio\<close>: the synthesizer either raises or has
  written an audio file of some duration to \<open>path\<close>; the call returns \<open>(key, path)\<close>.
  The synthesizer is a parameter: it maps the text to the duration of the audio it
  produces, or to the exception it raises.
\<close>

record audio_result =
  res_key :: string
  res_path :: string
  res_duration :: real

definition audio_path :: "string \<Rightarrow> string \<Rightarrow> string \<Rightarrow> string" where
  "audio_path temp_dir vid_id key = temp_dir @ ''/'' @ vid_id @ ''_'' @ key @ ''.mp3''"

definition generate_single_audio ::
  "(string \<Rightarrow> error + real) \<Rightarrow> string \<Rightarrow> string \<Rightarrow> string \<times> string \<Rightarrow> error + audio_result" where
  "generate_single_audio synth temp_dir vid_id task =
     (case synth (snd task) of
        Inl e \<Rightarrow> Inl e
      | Inr d \<Rightarrow> Inr \<lparr> res_key = fst task,
                      res_path = audio_path temp_dir vid_id (fst task),
                      res_duration = d \<rparr>)"

text \<open>
  The state the pool loop works on: the dict \<open>generated_audio_paths\<close>, the list
  \<open>audio_files\<close>, and the audio files on disk (path to duration).
\<close>

record gen_state =
  generated_audio_paths :: "string \<rightharpoonup> string"
  audio_files :: "string list"
  disk :: "string \<rightharpoonup> real"

definition init_state :: "(string \<rightharpoonup> real) \<Rightarrow> gen_state" where
  "init_state d = \<lparr> generated_audio_paths = Map.empty, audio_files = [], disk = d \<rparr>"

text \<open>
  \<open>as_completed\<close> yields the submitted futures in completion order; the order is a
  list of indices into the submission list. The loop body stores the path under the
  key the future returns; \<open>future.result()\<close> re-raises the task's exception.
\<close>

definition as_completed :: "nat list \<Rightarrow> 'a list \<Rightarrow> 'a list" where
  "as_completed order futures = map (\<lambda>i. futures ! i) order"

fun collect_loop :: "(error + audio_result) list \<Rightarrow> gen_state \<Rightarrow> error + gen_state" where
  "collect_loop [] st = Inr st"
| "collect_loop (Inl e # fs) st = Inl e"
| "collect_loop (Inr r # fs) st =
     collect_loop fs
       (st\<lparr> generated_audio_paths := (generated_audio_paths st)(res_key r \<mapsto> res_path r),
            audio_files := audio_files st @ [res_path r],
            disk := (disk st)(res_path r \<mapsto> res_duration r) \<rparr>)"

text \<open>\<open>AudioFileClip(generated_audio_paths[key]).duration\<close>.\<close>

definition clip_duration :: "gen_state \<Rightarrow> string \<Rightarrow> error + real" where
  "clip_duration st key =
     bind_err (getitem (generated_audio_paths st) key) (\<lambda>path.
       case disk st path of None \<Rightarrow> Inl (IOError path) | Some d \<Rightarrow> Inr d)"

definition load_clips :: "gen_state \<Rightarrow> error + clips" where
  "load_clips st =
     bind_err (clip_duration st ''hook'') (\<lambda>h.
     bind_err (clip_duration st ''question'') (\<lambda>q.
     bind_err (clip_duration st ''opt_a'') (\<lambda>a.
     bind_err (clip_duration st ''opt_b'') (\<lambda>b.
     bind_err (clip_duration st ''opt_c'') (\<lambda>c.
     bind_err (clip_duration st ''opt_d'') (\<lambda>d.
     bind_err (clip_duration st ''think'') (\<lambda>t.
     bind_err (clip_duration st ''explanation'') (\<lambda>e.
     bind_err (clip_duration st ''cta'') (\<lambda>ct.
       Inr \<lparr> aud_hook = h, aud_q = q, aud_a = a, aud_b = b, aud_c = c, aud_d = d,
             aud_think = t, aud_expl = e, aud_cta = ct \<rparr>)))))))))"

text \<open>Steps 1 and 2 of \<open>generate\<close>: synthesize in the pool, collect, load, compute offsets.\<close>

definition generate_timing ::
  "(string \<Rightarrow> error + real) \<Rightarrow> (string \<rightharpoonup> real) \<Rightarrow> string \<Rightarrow> string \<Rightarrow> script \<Rightarrow> nat list
     \<Rightarrow> error + timeline" where
  "generate_timing synth disk0 temp_dir vid_id script order =
     bind_err (audio_tasks script) (\<lambda>tasks.
       let futures = map (generate_single_audio synth temp_dir vid_id) tasks in
       bind_err (collect_loop (as_completed order futures) (init_state disk0)) (\<lambda>st.
       bind_err (load_clips st) (\<lambda>c. Inr (timing c))))"

text \<open>The narration clips as placed in \<open>audio_list\<close>: (start offset, duration).\<close>

definition audio_list :: "clips \<Rightarrow> (real \<times> real) list" where
  "audio_list c =
     (let T = timing c in
      [(t_hook T, aud_hook c), (t_q T, aud_q c), (t_a T, aud_a c),
       (t_b T, aud_b c), (t_c T, aud_c c), (t_d T, aud_d c),
       (t_think T, aud_think c), (t_ans T, aud_expl c), (t_cta T, aud_cta c)])"

text \<open>Two placed clips overlap when their half-open intervals share a point.\<close>

definition overlap :: "real \<times> real \<Rightarrow> real \<times> real \<Rightarrow> bool" where
  "overlap a b \<longleftrightarrow> max (fst a) (fst b) < min (fst a + snd a) (fst b + snd b)"

fun no_overlaps :: "(real \<times> real) list \<Rightarrow> bool" where
  "no_overlaps [] = True"
| "no_overlaps (x # xs) = (list_all (\<lambda>y. \<not> overlap x y) xs \<and> no_overlaps xs)"

text \<open>A script with the fields of the quiz prompt's JSON format.\<close>

definition quiz_script :: script where
  "quiz_script = map_of
     [(''filename_slug'', ''gravity''),
      (''hook_spoken'', ''Most students fail this question!''),
      (''question_visual'', ''Who studied gravity?''),
      (''question_spoken'', ''Who studied gravity?''),
      (''opt_a_visual'', ''Newton''), (''opt_a_spoken'', ''Newton''),
      (''opt_b_visual'', ''Darwin''), (''opt_b_spoken'', ''Darwin''),
      (''opt_c_visual'', ''Mendel''), (''opt_c_spoken'', ''Mendel''),
      (''opt_d_visual'', ''Bohr''), (''opt_d_spoken'', ''Bohr''),
      (''correct_opt'', ''A''),
      (''explanation_visual'', ''Newton: gravity''),
      (''explanation_spoken'', ''Newton studied gravity deeply. The gravity pulls apples!''),
      (''cta_spoken'', ''Subscribe for more'')]"

text \<open>The keys of \<open>audio_tasks\<close>, in the order of the dict literal.\<close>

definition role_keys :: "string list" where
  "role_keys = [''hook'', ''question'', ''opt_a'', ''opt_b'', ''opt_c'', ''opt_d'',
                ''think'', ''explanation'', ''cta'']"

text \<open>A synthesizer for examples: the audio lasts as many seconds as the text has characters.\<close>

definition synth_by_length :: "string \<Rightarrow> error + real" where
  "synth_by_length text = Inr (real (length text))"

section \<open>video_processor.py\<close>

subsection \<open>Strings\<close>

text \<open>
  \<open>str.lower()\<close>, \<open>str.split()\<close> and \<open>str.strip(chars)\<close> on ASCII text: the upper-case
  letters are \<open>A\<close> to \<open>Z\<close>, and the whitespace characters are the codes 9 to 13,
  28 to 31 and 32. The operator \<open>in\<close> on two strings is \<^const>\<open>sublist\<close>.
\<close>

definition lower_char :: "char \<Rightarrow> char" where
  "lower_char c =
     (case map_of (zip ''ABCDEFGHIJKLMNOPQRSTUVWXYZ'' ''abcdefghijklmnopqrstuvwxyz'') c of
        Some l \<Rightarrow> l
      | None \<Rightarrow> c)"

definition lower :: "string \<Rightarrow> string" where
  "lower s = map lower_char s"

definition isspace :: "char \<Rightarrow> bool" where
  "isspace c =
     (let n = (of_char c :: nat) in (9 \<le> n \<and> n \<le> 13) \<or> (28 \<le> n \<and> n \<le> 31) \<or> n = 32)"

text \<open>\<open>split_from cur s\<close>: the words of \<open>s\<close>, where \<open>cur\<close> is the word read so far.\<close>

fun split_from :: "string \<Rightarrow> string \<Rightarrow> string list" where
  "split_from cur [] = (if cur = [] then [] else [cur])"
| "split_from cur (c # cs) =
     (if isspace c then (if cur = [] then split_from [] cs else cur # split_from [] cs)
      else split_from (cur @ [c]) cs)"

definition split :: "string \<Rightarrow> string list" where
  "split s = split_from [] s"

definition strip :: "string \<Rightarrow> string \<Rightarrow> string" where
  "strip chars s =
     rev (dropWhile (\<lambda>c. c \<in> set chars) (rev (dropWhile (\<lambda>c. c \<in> set chars) s)))"

definition dict_get :: "(string \<rightharpoonup> string) \<Rightarrow> string \<Rightarrow> string \<Rightarrow> string" where
  "dict_get d k dflt = (case d k of None \<Rightarrow> dflt | Some v \<Rightarrow> v)"

subsection \<open>find_best_timestamp\<close>

record segment =
  seg_start :: real
  seg_end :: real
  seg_text :: string

text \<open>The \<open>for seg in segments\<close> loop: \<open>Some\<close> is the early \<open>return seg['start']\<close>.\<close>

fun scan_segments :: "segment list \<Rightarrow> string \<Rightarrow> real \<Rightarrow> real option" where
  "scan_segments [] keyword last_end_time = None"
| "scan_segments (seg # segs) keyword last_end_time =
     (if seg_start seg \<ge> last_end_time \<and> sublist (lower keyword) (lower (seg_text seg))
      then Some (seg_start seg)
      else scan_segments segs keyword last_end_time)"

definition find_best_timestamp :: "segment list \<Rightarrow> string option \<Rightarrow> real \<Rightarrow> real" where
  "find_best_timestamp segments keyword last_end_time =
     (case keyword of
        None \<Rightarrow> last_end_time + 40
      | Some kw \<Rightarrow>
          if kw \<noteq> [] \<and> length kw > 3 then
            (case scan_segments segments kw last_end_time of
               Some t \<Rightarrow> t
             | None \<Rightarrow> last_end_time + 40)
          else last_end_time + 40)"

text \<open>
  What the description of \<open>find\<close> calls a match: the segment starts at or after
  \<open>not_before\<close> and its text contains the keyword, ignoring case.
\<close>

definition matches :: "string \<Rightarrow> real \<Rightarrow> segment \<Rightarrow> bool" where
  "matches kw not_before seg \<longleftrightarrow>
     not_before \<le> seg_start seg \<and> sublist (lower kw) (lower (seg_text seg))"

subsection \<open>apply_micro_zoom\<close>

text \<open>The result is the scale as a function of the time within the clip.\<close>

definition apply_micro_zoom :: "nat \<Rightarrow> real \<Rightarrow> error + (real \<Rightarrow> real)" where
  "apply_micro_zoom index duration =
     (if duration = 0 then Inl ZeroDivisionError
      else
        let speed = 0.05 / duration in
        if index mod 2 = 0 then Inr (\<lambda>t. 1 + speed * t)
        else Inr (\<lambda>t. 1.05 - speed * t))"

subsection \<open>extract_keywords_ordered\<close>

definition stop_words :: "string list" where
  "stop_words =
     [''the'', ''a'', ''an'', ''is'', ''are'', ''was'', ''were'', ''what'', ''to'', ''in'',
      ''of'', ''and'', ''for'', ''on'', ''with'', ''at'', ''by'', ''this'', ''that'',
      ''these'', ''those'', ''which'', ''who'', ''when'', ''where'', ''how'', ''why'']"

definition clean_words :: "string list \<Rightarrow> string list" where
  "clean_words words =
     map (strip ''.,?!'')
       (filter (\<lambda>w. strip ''.,?!'' w \<notin> set stop_words \<and> length w > 4) words)"

text \<open>The loop over \<open>clean_words\<close> with the set \<open>seen\<close> and the list \<open>ordered\<close>.\<close>

fun dedup_loop :: "string list \<Rightarrow> string set \<Rightarrow> string list \<Rightarrow> string list" where
  "dedup_loop [] seen ordered = ordered"
| "dedup_loop (w # ws) seen ordered =
     (if w \<notin> seen then dedup_loop ws (insert w seen) (ordered @ [w])
      else dedup_loop ws seen ordered)"

definition extract_keywords_ordered :: "script \<Rightarrow> string list" where
  "extract_keywords_ordered script =
     (let full_text =
            dict_get script ''question_text'' [] @ '' '' @
            dict_get script ''explanation_spoken'' [] @ '' '' @
            dict_get script ''fact_details'' [] @ '' '' @
            dict_get script ''tip_content'' [];
          words = split (lower full_text)
      in dedup_loop (clean_words words) {} [])"

text \<open>Order-preserving deduplication: every element is kept at its first occurrence.\<close>

fun first_occurrences :: "'a list \<Rightarrow> 'a list" where
  "first_occurrences [] = []"
| "first_occurrences (x # xs) = x # removeAll x (first_occurrences xs)"

text \<open>The fields of the quiz prompt's JSON format (prompt_manager.py).\<close>

definition quiz_fields :: "string list" where
  "quiz_fields =
     [''filename_slug'', ''hook_spoken'', ''question_visual'', ''question_spoken'',
      ''opt_a_visual'', ''opt_a_spoken'', ''opt_b_visual'', ''opt_b_spoken'',
      ''opt_c_visual'', ''opt_c_spoken'', ''opt_d_visual'', ''opt_d_spoken'',
      ''correct_opt'', ''explanation_visual'', ''explanation_spoken'', ''cta_spoken'']"

subsection \<open>prepare_video_for_short\<close>

text \<open>
  An extracted sub-clip: where it starts in the source, how long it is, its index and
  its zoom. The two calls of \<open>random.uniform\<close> are parameters of the loop:
  \<open>draws i\<close> is the value of \<open>random.uniform(1.5, 2.5)\<close> in iteration \<open>i\<close>, and
  \<open>rewinds i\<close> the value of \<open>random.uniform(1.0, safe_duration / 4)\<close> there.
\<close>

record scene =
  scene_start :: real
  scene_len :: real
  scene_index :: nat
  scene_zoom :: "real \<Rightarrow> real"

record selector_env =
  total_duration :: real
  safe_duration :: real
  transcript :: "segment list"
  keyword_list :: "string list"
  draws :: "nat \<Rightarrow> real"
  rewinds :: "nat \<Rightarrow> real"

record loop_state =
  final_clips :: "scene list"
  current_generated_duration :: real
  current_time_marker :: real
  clip_index :: nat

definition loop_body :: "selector_env \<Rightarrow> loop_state \<Rightarrow> error + loop_state" where
  "loop_body env st =
     (let this_clip_len = draws env (clip_index st);
          remaining = total_duration env - current_generated_duration st;
          this_clip_len = (if remaining < this_clip_len then remaining else this_clip_len);
          target_kw = (if clip_index st < length (keyword_list env)
                       then Some (keyword_list env ! clip_index st) else None);
          start_t = find_best_timestamp (transcript env) target_kw (current_time_marker st);
          start_t = (if start_t + this_clip_len > safe_duration env
                     then rewinds env (clip_index st) else start_t)
      in case apply_micro_zoom (clip_index st) this_clip_len of
           Inl e \<Rightarrow> Inl e
         | Inr zoom \<Rightarrow> Inr
             \<lparr> final_clips = final_clips st @
                 [\<lparr> scene_start = start_t, scene_len = this_clip_len,
                    scene_index = clip_index st, scene_zoom = zoom \<rparr>],
               current_generated_duration = current_generated_duration st + this_clip_len,
               current_time_marker = start_t + this_clip_len,
               clip_index = clip_index st + 1 \<rparr>)"

text \<open>The \<open>while\<close> loop; \<open>None\<close> is a loop that never ends.\<close>

partial_function (option) select_loop ::
  "selector_env \<Rightarrow> loop_state \<Rightarrow> (error + scene list) option" where
  "select_loop env st =
     (if current_generated_duration st < total_duration env then
        (case loop_body env st of
           Inl e \<Rightarrow> Some (Inl e)
         | Inr st' \<Rightarrow> select_loop env st')
      else Some (Inr (final_clips st)))"

definition prepare_video_for_short ::
  "real \<Rightarrow> segment list \<Rightarrow> real \<Rightarrow> script option \<Rightarrow> (nat \<Rightarrow> real) \<Rightarrow> (nat \<Rightarrow> real)
     \<Rightarrow> (error + scene list) option" where
  "prepare_video_for_short vid_duration transcript_map total_dur_arg script uniform_len uniform_start =
     (let safe = vid_duration - 5.0;
          safe = (if safe < 10 then vid_duration else safe);
          kws = (case script of None \<Rightarrow> [] | Some s \<Rightarrow> extract_keywords_ordered s)
      in select_loop
           \<lparr> total_duration = total_dur_arg, safe_duration = safe, transcript = transcript_map,
             keyword_list = kws, draws = uniform_len, rewinds = uniform_start \<rparr>
           \<lparr> final_clips = [], current_generated_duration = 0.0,
             current_time_marker = 0.0, clip_index = 0 \<rparr>)"

text \<open>
  The shape of the emitted segments: segment \<open>i\<close> is as long as its draw, cut down to
  what was still missing when it was made; every segment but the last has the length
  of its draw.
\<close>

definition well_cut :: "selector_env \<Rightarrow> scene list \<Rightarrow> bool" where
  "well_cut env cs \<longleftrightarrow>
     (\<forall>i<length cs. scene_len (cs ! i) =
         min (draws env i) (total_duration env - sum_list (map scene_len (take i cs)))) \<and>
     (\<forall>i. Suc i < length cs \<longrightarrow> scene_len (cs ! i) = draws env i)"

text \<open>The invariant of the \<open>while\<close> loop.\<close>

definition loop_inv :: "selector_env \<Rightarrow> loop_state \<Rightarrow> bool" where
  "loop_inv env st \<longleftrightarrow>
     sum_list (map scene_len (final_clips st)) = current_generated_duration st \<and>
     length (final_clips st) = clip_index st \<and>
     current_generated_duration st \<le> total_duration env \<and>
     well_cut env (final_clips st) \<and>
     (current_generated_duration st < total_duration env \<longrightarrow>
        (\<forall>i<length (final_clips st). scene_len (final_clips st ! i) = draws env i))"

text \<open>A transcript for examples.\<close>

definition transcript_example :: "segment list" where
  "transcript_example =
     [\<lparr> seg_start = 3.0, seg_end = 12.0, seg_text = ''Welcome to the lesson'' \<rparr>,
      \<lparr> seg_start = 12.0, seg_end = 15.0, seg_text = ''Newton studied GRAVITY deeply'' \<rparr>,
      \<lparr> seg_start = 20.0, seg_end = 25.0, seg_text = ''Gravity pulls apples'' \<rparr>]"

section \<open>sfx_manager.py\<close>

text \<open>\<open>os.path.join\<close> of a directory and a relative name.\<close>

definition path_join :: "string \<Rightarrow> string \<Rightarrow> string" where
  "path_join dir name =
     (if dir = [] then name
      else if last dir = CHR ''/'' then dir @ name
      else dir @ ''/'' @ name)"

text \<open>\<open>s.replace(old, new)\<close> for a non-empty \<open>old\<close>.\<close>

fun replace :: "string \<Rightarrow> string \<Rightarrow> string \<Rightarrow> string" where
  "replace old new [] = []"
| "replace old new (c # cs) =
     (if old \<noteq> [] \<and> prefix old (c # cs)
      then new @ replace old new (drop (length old - 1) cs)
      else c # replace old new cs)"

datatype asset = Single string | Pool "string list"

definition assets :: "string \<rightharpoonup> asset" where
  "assets = map_of
     [(''whoosh'', Single ''whoosh.wav''),
      (''tick'', Single ''tick.wav''),
      (''success'', Single ''correct.wav''),
      (''pop'', Single ''pop_soft.mp3''),
      (''flip'', Single ''paper-slide.wav''),
      (''swish_low'', Single ''swish_low.wav''),
      (''glitch'',
         Pool [''glitch.wav'', ''glitch1.wav'', ''glitch2.wav'', ''glitch3.mp3'', ''glitch4.wav'']),
      (''shutter'', Pool [''dslr1.wav'', ''dslr2.wav'', ''dslr3.wav'', ''dslr4.wav'']),
      (''notification'',
         Pool [''notification.wav'', ''ping1.mp3'', ''ping2.wav'', ''ping3.mp3'']),
      (''zip'', Pool [''zip.wav'', ''zip1.wav'', ''zip2.wav'']),
      (''marker'', Single ''marker.wav''),
      (''keyboard'', Pool [''keyboard1.wav'', ''keyboard2.wav''])]"

text \<open>
  What \<open>get_clip\<close> reads from its surroundings: the directory, which paths exist, which
  files load as audio, which of them normalize, and the value of \<open>random.choice\<close>.
\<close>

record sfx_env =
  config_dir :: string
  path_exists :: "string \<Rightarrow> bool"
  load_ok :: "string \<Rightarrow> bool"
  normalize_ok :: "string \<Rightarrow> bool"
  choice :: "string list \<Rightarrow> string"

record sfx_clip =
  clip_name :: string
  clip_path :: string
  clip_normalized :: bool
  clip_start :: real
  clip_volume :: real

definition mixing_rule :: "string \<Rightarrow> real \<Rightarrow> real" where
  "mixing_rule name volume =
     (let volume = (if name = ''whoosh'' then volume * 0.15 else volume);
          volume = (if name = ''swish_low'' then volume * 0.25 else volume);
          volume = (if name = ''flip'' then volume * 0.15 else volume);
          volume = (if name = ''glitch'' then volume * 0.12 else volume);
          volume = (if name = ''shutter'' then volume * 0.15 else volume);
          volume = (if name = ''notification'' then volume * 0.15 else volume);
          volume = (if name = ''zip'' then volume * 0.2 else volume);
          volume = (if name = ''keyboard'' then volume * 0.25 else volume);
          volume = (if name = ''marker'' then volume * 0.2 else volume)
      in volume)"

text \<open>The path \<open>get_clip\<close> loads for an asset name, when there is one.\<close>

definition resolve_path :: "sfx_env \<Rightarrow> string \<Rightarrow> string option" where
  "resolve_path env name =
     (case assets name of
        None \<Rightarrow> None
      | Some asset \<Rightarrow>
          let filename = (case asset of Pool fs \<Rightarrow> choice env fs | Single f \<Rightarrow> f);
              path = path_join (config_dir env) filename
          in if \<not> path_exists env path then
               (let path = (if name = ''pop'' then replace ''.mp3'' ''.wav'' path else path)
                in if \<not> path_exists env path then None else Some path)
             else Some path)"

definition get_clip :: "sfx_env \<Rightarrow> string \<Rightarrow> real \<Rightarrow> real \<Rightarrow> sfx_clip option" where
  "get_clip env name start_time volume =
     (case resolve_path env name of
        None \<Rightarrow> None
      | Some path \<Rightarrow>
          if \<not> load_ok env path then None
          else Some \<lparr> clip_name = name, clip_path = path,
                      clip_normalized = normalize_ok env path,
                      clip_start = start_time, clip_volume = mixing_rule name volume \<rparr>)"

text \<open>\<open>if clp: sfx_layer.append(clp)\<close>.\<close>

definition append_clip :: "sfx_clip option \<Rightarrow> sfx_clip list" where
  "append_clip clp = (case clp of None \<Rightarrow> [] | Some c \<Rightarrow> [c])"

definition generate_quiz_sfx :: "sfx_env \<Rightarrow> (string \<rightharpoonup> real) \<Rightarrow> sfx_clip list" where
  "generate_quiz_sfx env timings =
     (case timings ''q'' of
        None \<Rightarrow> []
      | Some q \<Rightarrow> append_clip (get_clip env ''whoosh'' (q - 0.2) 0.5)) @
     concat (map (\<lambda>key. case timings key of
                          None \<Rightarrow> []
                        | Some t \<Rightarrow> append_clip (get_clip env ''pop'' t 0.15))
               [''a'', ''b'', ''c'', ''d'']) @
     (case timings ''think'' of
        None \<Rightarrow> []
      | Some start \<Rightarrow>
          concat (map (\<lambda>i. let offset = real i * 0.25
                           in append_clip (get_clip env ''tick'' (start + offset) 0.6))
                    [0..<12])) @
     (case timings ''ans'' of
        None \<Rightarrow> []
      | Some t \<Rightarrow> append_clip (get_clip env ''success'' t 0.7)) @
     (case timings ''cta'' of
        None \<Rightarrow> []
      | Some t \<Rightarrow> append_clip (get_clip env ''flip'' t 1.0)) @
     (case timings ''outro'' of
        None \<Rightarrow> []
      | Some t \<Rightarrow> append_clip (get_clip env ''swish_low'' t 0.6))"

text \<open>The dict \<open>sfx_timings\<close> that \<open>QuizTemplate.generate\<close> passes.\<close>

definition sfx_timings :: "timeline \<Rightarrow> (string \<rightharpoonup> real)" where
  "sfx_timings T = map_of
     [(''q'', t_q T), (''a'', t_a T), (''b'', t_b T), (''c'', t_c T), (''d'', t_d T),
      (''think'', t_think T), (''ans'', t_ans T), (''cta'', t_cta T),
      (''outro'', t_outro T)]"

text \<open>An asset name yields a clip: its file is found and loads.\<close>

definition loads :: "sfx_env \<Rightarrow> string \<Rightarrow> bool" where
  "loads env name =
     (case resolve_path env name of None \<Rightarrow> False | Some path \<Rightarrow> load_ok env path)"

text \<open>The cues of the quiz layer, as (asset name, start offset), in the order of the code.\<close>

definition quiz_cues ::
  "real \<Rightarrow> real \<Rightarrow> real \<Rightarrow> real \<Rightarrow> real \<Rightarrow> real \<Rightarrow> real \<Rightarrow> real \<Rightarrow> real \<Rightarrow> (string \<times> real) list" where
  "quiz_cues q a b c d think ans cta outro =
     [(''whoosh'', q - 0.2), (''pop'', a), (''pop'', b), (''pop'', c), (''pop'', d)] @
     map (\<lambda>i. (''tick'', think + real i * (THINK_TIME / 12))) [0..<12] @
     [(''success'', ans), (''flip'', cta), (''swish_low'', outro)]"

text \<open>An environment in which every file exists and loads.\<close>

definition sfx_env_all :: sfx_env where
  "sfx_env_all =
     \<lparr> config_dir = ''config/sfx'', path_exists = (\<lambda>p. True), load_ok = (\<lambda>p. True),
       normalize_ok = (\<lambda>p. True), choice = hd \<rparr>"

text \<open>A timings dict whose pause between think and answer is 6 seconds.\<close>

definition timings_long_pause :: "string \<rightharpoonup> real" where
  "timings_long_pause = map_of
     [(''q'', 1), (''a'', 2), (''b'', 3), (''c'', 4), (''d'', 5),
      (''think'', 10), (''ans'', 16), (''cta'', 20), (''outro'', 25)]"

section \<open>shorts_engine.py: add_background_music\<close>

text \<open>
  The table \<open>THEMES\<close> with the string entries of each theme (the colour tuple
  \<open>bg_color\<close> is left out; nothing below reads it).
\<close>

definition THEMES :: "string \<rightharpoonup> (string \<rightharpoonup> string)" where
  "THEMES = map_of
     [(''energetic_yellow'',
         map_of [(''highlight'', ''#FACC15''), (''correct'', ''#22C55E''),
                 (''name'', ''Energetic Yellow''), (''music_mood'', ''energetic'')]),
      (''calm_blue'',
         map_of [(''highlight'', ''#38BDF8''), (''correct'', ''#34D399''),
                 (''name'', ''Calm Blue''), (''music_mood'', ''calm'')]),
      (''vibrant_purple'',
         map_of [(''highlight'', ''#E879F9''), (''correct'', ''#A78BFA''),
                 (''name'', ''Vibrant Purple''), (''music_mood'', ''funky'')]),
      (''fresh_green'',
         map_of [(''highlight'', ''#84CC16''), (''correct'', ''#4ADE80''),
                 (''name'', ''Fresh Green''), (''music_mood'', ''calm'')]),
      (''classic_red'',
         map_of [(''highlight'', ''#FB923C''), (''correct'', ''#F87171''),
                 (''name'', ''Classic Red''), (''music_mood'', ''energetic'')])]"

text \<open>\<open>THEMES.get(theme_name, THEMES['energetic_yellow'])\<close>: the default is evaluated first.\<close>

definition get_theme :: "string \<Rightarrow> error + (string \<rightharpoonup> string)" where
  "get_theme theme_name =
     bind_err (getitem THEMES ''energetic_yellow'') (\<lambda>dflt.
       Inr (case THEMES theme_name of None \<Rightarrow> dflt | Some theme \<Rightarrow> theme))"

text \<open>
  What \<open>add_background_music\<close> reads from its surroundings: the music directory, the
  result of \<open>glob.glob\<close> for a pattern, which paths exist, the value of
  \<open>random.choice\<close>, and the behaviour of the audio library: loading a track gives its
  duration or raises, normalizing may raise, and so may cutting and composing.
\<close>

record music_env =
  music_dir :: string
  glob :: "string \<Rightarrow> string list"
  file_exists :: "string \<Rightarrow> bool"
  random_choice :: "string list \<Rightarrow> string"
  track_duration :: "string \<Rightarrow> error + real"
  normalize_raises :: "string \<Rightarrow> bool"
  compose_raises :: "error option"

text \<open>
  The music bed laid under the voice track: the track, whether it was normalized, its
  length before and after \<open>subclip(0, total_duration)\<close>, and its gain.
\<close>

record music_bed =
  bed_track :: string
  bed_normalized :: bool
  bed_source_duration :: real
  bed_duration :: real
  bed_volume :: real

text \<open>The returned clip: the voice track itself, or the voice track composed with a bed.\<close>

datatype mix = VoiceOnly | WithMusic music_bed

text \<open>The tracks to choose from; the empty list stands for \<open>return voice_track\<close>.\<close>

definition select_tracks :: "music_env \<Rightarrow> string \<Rightarrow> string list" where
  "select_tracks env mood =
     (let search_path = path_join (path_join (music_dir env) mood) ''*.mp3'';
          tracks = (if glob env search_path \<noteq> [] then glob env search_path
                    else glob env (path_join (music_dir env) ''*.mp3''))
      in if tracks = [] then
           (let legacy = ''config/music.mp3''
            in if file_exists env legacy then [legacy] else [])
         else tracks)"

text \<open>
  The body of the \<open>try\<close> block. \<open>bgm\<close> is an \<open>AudioFileClip\<close>, and the audio clips of the
  library have no attribute \<open>loop\<close> (their looping effect is \<open>audio_loop\<close>): when the
  track is shorter than the total duration, evaluating \<open>bgm.loop\<close> raises
  \<open>AttributeError\<close>, before the argument \<open>int(total_duration / bgm.duration) + 1\<close> is
  computed.
\<close>

definition music_try :: "music_env \<Rightarrow> string \<Rightarrow> real \<Rightarrow> error + mix" where
  "music_try env chosen total_time =
     bind_err (track_duration env chosen) (\<lambda>duration.
       let vol_level = 0.12;
           normalized = \<not> normalize_raises env chosen
       in bind_err
            (if duration < total_time then Inl (AttributeError ''loop'') else Inr duration)
            (\<lambda>bgm_duration.
               case compose_raises env of
                 Some e \<Rightarrow> Inl e
               | None \<Rightarrow> Inr (WithMusic
                   \<lparr> bed_track = chosen, bed_normalized = normalized,
                     bed_source_duration = bgm_duration,
                     bed_duration = total_time, bed_volume = vol_level \<rparr>)))"

definition add_background_music :: "music_env \<Rightarrow> real \<Rightarrow> string \<Rightarrow> error + mix" where
  "add_background_music env total_time theme_name =
     bind_err (get_theme theme_name) (\<lambda>theme.
       let mood = dict_get theme ''music_mood'' ''energetic'';
           tracks = select_tracks env mood
       in if tracks = [] then Inr VoiceOnly
          else
            let chosen = random_choice env tracks
            in case music_try env chosen total_time of
                 Inl e \<Rightarrow> Inr VoiceOnly
               | Inr m \<Rightarrow> Inr m)"

text \<open>The mood of a theme name, as \<open>add_background_music\<close> computes it.\<close>

definition mood_of :: "string \<Rightarrow> string" where
  "mood_of theme_name =
     (case get_theme theme_name of
        Inl e \<Rightarrow> []
      | Inr theme \<Rightarrow> dict_get theme ''music_mood'' ''energetic'')"

text \<open>
  An environment for examples: the files found by \<open>glob\<close> are given per pattern, the
  legacy track exists when \<open>legacy\<close> is set, every track lasts 10 seconds, and
  normalization raises when \<open>nf\<close> is set.
\<close>

definition music_env_example :: "(string \<Rightarrow> string list) \<Rightarrow> bool \<Rightarrow> bool \<Rightarrow> music_env" where
  "music_env_example g legacy nf =
     \<lparr> music_dir = ''config/music'', glob = g, file_exists = (\<lambda>p. legacy),
       random_choice = hd, track_duration = (\<lambda>p. Inr 10), normalize_raises = (\<lambda>p. nf),
       compose_raises = None \<rparr>"

definition glob_energetic :: "string \<Rightarrow> string list" where
  "glob_energetic pattern =
     (if pattern = ''config/music/energetic/*.mp3''
      then [''config/music/energetic/beat.mp3''] else [])"

definition glob_shared :: "string \<Rightarrow> string list" where
  "glob_shared pattern =
     (if pattern = ''config/music/*.mp3'' then [''config/music/a.mp3''] else [])"

definition glob_nothing :: "string \<Rightarrow> string list" where
  "glob_nothing pattern = []"

text \<open>
  A quiz script whose explanation has stop words of five letters, a stop word that is
  long only with its punctuation, four-letter words, and repeated words.
\<close>

definition quiz_script_stop_words :: script where
  "quiz_script_stop_words = map_of
     [(''filename_slug'', ''gravity''),
      (''hook_spoken'', ''Nobody answers this correctly!''),
      (''question_visual'', ''Which scientist explained falling bodies?''),
      (''question_spoken'', ''Which scientist explained falling bodies?''),
      (''opt_a_visual'', ''Newton''), (''opt_a_spoken'', ''Newton''),
      (''opt_b_visual'', ''Darwin''), (''opt_b_spoken'', ''Darwin''),
      (''opt_c_visual'', ''Mendel''), (''opt_c_spoken'', ''Mendel''),
      (''opt_d_visual'', ''Bohr''), (''opt_d_spoken'', ''Bohr''),
      (''correct_opt'', ''A''),
      (''explanation_visual'', ''Newton: gravity''),
      (''explanation_spoken'',
       ''Which force pulls these apples down? Gravity, where Newton what?! said pull harder. The gravity pulls.''),
      (''cta_spoken'', ''Subscribe for more'')]"

section \<open>Timeline accumulation\<close>

lemma timing_sel:
  "t_hook (timing c) = 0"
  "t_q (timing c) = aud_hook c"
  "t_a (timing c) = aud_hook c + aud_q c"
  "t_b (timing c) = aud_hook c + aud_q c + aud_a c"
  "t_c (timing c) = aud_hook c + aud_q c + aud_a c + aud_b c"
  "t_d (timing c) = aud_hook c + aud_q c + aud_a c + aud_b c + aud_c c"
  "t_think (timing c) = aud_hook c + aud_q c + aud_a c + aud_b c + aud_c c + aud_d c"
  "t_ans (timing c) = aud_hook c + aud_q c + aud_a c + aud_b c + aud_c c + aud_d c + 3"
  "t_cta (timing c) =
     aud_hook c + aud_q c + aud_a c + aud_b c + aud_c c + aud_d c + 3 + aud_expl c"
  "t_outro (timing c) =
     aud_hook c + aud_q c + aud_a c + aud_b c + aud_c c + aud_d c + 3 + aud_expl c + aud_cta c"
  "total_dur (timing c) =
     aud_hook c + aud_q c + aud_a c + aud_b c + aud_c c + aud_d c + 3 + aud_expl c + aud_cta c + 4"
  by (simp_all add: timing_def Let_def THINK_TIME_def OUTRO_DURATION_def)

text \<open>
  C2. In the fixed role order every start is the previous start plus the previous
  clip's duration; the answer starts exactly 3.0 after the think start; the total is
  the outro start plus exactly 4.0; and with non-negative durations the starts are
  non-decreasing.
\<close>

theorem timeline_accumulation:
  "t_hook (timing c) = 0 \<and>
   t_q (timing c) = t_hook (timing c) + aud_hook c \<and>
   t_a (timing c) = t_q (timing c) + aud_q c \<and>
   t_b (timing c) = t_a (timing c) + aud_a c \<and>
   t_c (timing c) = t_b (timing c) + aud_b c \<and>
   t_d (timing c) = t_c (timing c) + aud_c c \<and>
   t_think (timing c) = t_d (timing c) + aud_d c \<and>
   t_ans (timing c) = t_think (timing c) + 3.0 \<and>
   t_cta (timing c) = t_ans (timing c) + aud_expl c \<and>
   t_outro (timing c) = t_cta (timing c) + aud_cta c \<and>
   total_dur (timing c) = t_outro (timing c) + 4.0 \<and>
   (nonneg_clips c \<longrightarrow> sorted (starts (timing c)))"
  by (simp add: timing_sel starts_def nonneg_clips_def)

theorem timeline_accumulation_witness:
  "nonneg_clips \<lparr> aud_hook = 1.0, aud_q = 1.2, aud_a = 0.8, aud_b = 0.9, aud_c = 0.85,
      aud_d = 0.95, aud_think = 0.9, aud_expl = 1.6, aud_cta = 2.0 \<rparr> \<and>
   starts (timing \<lparr> aud_hook = 1.0, aud_q = 1.2, aud_a = 0.8, aud_b = 0.9, aud_c = 0.85,
      aud_d = 0.95, aud_think = 0.9, aud_expl = 1.6, aud_cta = 2.0 \<rparr>)
     = [0, 1.0, 2.2, 3.0, 3.9, 4.75, 5.7, 8.7, 10.3, 12.3] \<and>
   sorted (starts (timing \<lparr> aud_hook = 1.0, aud_q = 1.2, aud_a = 0.8, aud_b = 0.9,
      aud_c = 0.85, aud_d = 0.95, aud_think = 0.9, aud_expl = 1.6, aud_cta = 2.0 \<rparr>))"
  using timeline_accumulation [of "\<lparr> aud_hook = 1.0, aud_q = 1.2, aud_a = 0.8, aud_b = 0.9,
      aud_c = 0.85, aud_d = 0.95, aud_think = 0.9, aud_expl = 1.6, aud_cta = 2.0 \<rparr>"]
  by (simp add: nonneg_clips_def starts_def timing_sel)

section \<open>Reorder invariance of the pool\<close>

lemma bind_err_Inr_iff:
  "bind_err r f = Inr y \<longleftrightarrow> (\<exists>v. r = Inr v \<and> f v = Inr y)"
  by (cases r) (simp_all add: bind_err_def)

lemma audio_tasks_keys:
  "audio_tasks script = Inr tasks \<Longrightarrow> map fst tasks = role_keys"
  by (auto simp: audio_tasks_def bind_err_Inr_iff role_keys_def)

lemma collect_loop_all_Inr:
  "collect_loop fs st = Inr s \<Longrightarrow> \<forall>f\<in>set fs. \<not> isl f"
  by (induction fs st rule: collect_loop.induct) auto

text \<open>When no future raises, the loop ends in a state given by the list of results.\<close>

lemma collect_loop_explicit:
  "\<forall>f\<in>set fs. \<not> isl f \<Longrightarrow>
   collect_loop fs st = Inr
     \<lparr> generated_audio_paths =
         generated_audio_paths st ++
           map_of (rev (map (\<lambda>f. (res_key (projr f), res_path (projr f))) fs)),
       audio_files = audio_files st @ map (\<lambda>f. res_path (projr f)) fs,
       disk = disk st ++
           map_of (rev (map (\<lambda>f. (res_path (projr f), res_duration (projr f))) fs)) \<rparr>"
proof (induction fs st rule: collect_loop.induct)
  case (1 st)
  then show ?case by simp
next
  case (2 e fs st)
  then show ?case by simp
next
  case (3 r fs st)
  then show ?case by (auto simp: map_add_def fun_eq_iff split: option.splits)
qed

text \<open>
  With pairwise distinct keys and pairwise distinct paths, the dict and the disk at the
  end of the loop do not depend on the order in which the futures arrive.
\<close>

lemma collect_loop_perm:
  assumes perm: "mset fs2 = mset fs1"
    and ok: "collect_loop fs1 st = Inr s1"
    and dk: "distinct (map (\<lambda>f. res_key (projr f)) fs1)"
    and dp: "distinct (map (\<lambda>f. res_path (projr f)) fs1)"
  shows "\<exists>s2. collect_loop fs2 st = Inr s2 \<and>
              generated_audio_paths s2 = generated_audio_paths s1 \<and> disk s2 = disk s1"
proof -
  have set_eq: "set fs2 = set fs1"
    using perm by (rule mset_eq_setD)
  have inr1: "\<forall>f\<in>set fs1. \<not> isl f"
    using ok by (rule collect_loop_all_Inr)
  then have inr2: "\<forall>f\<in>set fs2. \<not> isl f"
    using set_eq by simp
  let ?kp = "\<lambda>f. (res_key (projr f), res_path (projr f))"
  let ?pd = "\<lambda>f. (res_path (projr f), res_duration (projr f))"
  have dk2: "distinct (map (\<lambda>f. res_key (projr f)) fs2)"
    using dk perm by (metis mset_eq_imp_distinct_iff mset_map)
  have dp2: "distinct (map (\<lambda>f. res_path (projr f)) fs2)"
    using dp perm by (metis mset_eq_imp_distinct_iff mset_map)
  have "map_of (rev (map ?kp fs2)) = map_of (rev (map ?kp fs1))"
    using dk dk2 set_eq
    by (intro map_of_inject_set [THEN iffD2])
      (simp_all add: rev_map [symmetric] comp_def distinct_rev)
  moreover have "map_of (rev (map ?pd fs2)) = map_of (rev (map ?pd fs1))"
    using dp dp2 set_eq
    by (intro map_of_inject_set [THEN iffD2])
      (simp_all add: rev_map [symmetric] comp_def distinct_rev)
  ultimately show ?thesis
    using ok collect_loop_explicit [OF inr1, of st] collect_loop_explicit [OF inr2, of st]
    by auto
qed

lemma load_clips_cong:
  "generated_audio_paths s2 = generated_audio_paths s1 \<Longrightarrow> disk s2 = disk s1 \<Longrightarrow>
   load_clips s2 = load_clips s1"
  by (simp add: load_clips_def clip_duration_def getitem_def)

lemma as_completed_mset:
  assumes "mset order = mset [0..<length futures]"
  shows "mset (as_completed order futures) = mset futures"
proof -
  have "mset (map (\<lambda>i. futures ! i) order) =
        mset (map (\<lambda>i. futures ! i) [0..<length futures])"
    using assms by (metis mset_map)
  then show ?thesis
    by (simp add: as_completed_def map_nth)
qed

lemma role_keys_distinct: "distinct role_keys"
  by (simp add: role_keys_def)

lemma audio_path_inj:
  "audio_path temp_dir vid_id k = audio_path temp_dir vid_id k' \<longleftrightarrow> k = k'"
  by (simp add: audio_path_def)

lemma generate_single_audio_key:
  "\<not> isl (generate_single_audio synth temp_dir vid_id task) \<Longrightarrow>
   res_key (projr (generate_single_audio synth temp_dir vid_id task)) = fst task \<and>
   res_path (projr (generate_single_audio synth temp_dir vid_id task)) =
     audio_path temp_dir vid_id (fst task)"
  by (cases "synth (snd task)") (simp_all add: generate_single_audio_def)

lemma futures_keys:
  assumes "\<forall>f\<in>set (map (generate_single_audio synth temp_dir vid_id) tasks). \<not> isl f"
  shows "map (\<lambda>f. res_key (projr f)) (map (generate_single_audio synth temp_dir vid_id) tasks)
           = map fst tasks"
    and "map (\<lambda>f. res_path (projr f)) (map (generate_single_audio synth temp_dir vid_id) tasks)
           = map (audio_path temp_dir vid_id) (map fst tasks)"
  using assms by (simp_all add: generate_single_audio_key)

text \<open>
  C1. The nine futures may complete in any order (every permutation of the submission
  indices; the five-worker bound only excludes some of them). Whenever one completion
  order yields a timeline, every other completion order yields the same timeline: the
  results are stored under their role key and the offsets are computed from the dict in
  the fixed template order.
\<close>

theorem timeline_reorder_invariant:
  assumes o1: "mset order1 = mset [0..<9]"
    and o2: "mset order2 = mset [0..<9]"
    and run1: "generate_timing synth disk0 temp_dir vid_id script order1 = Inr T"
  shows "generate_timing synth disk0 temp_dir vid_id script order2 = Inr T"
proof -
  let ?gsa = "generate_single_audio synth temp_dir vid_id"
  from run1 obtain tasks s1 c where
    tasks: "audio_tasks script = Inr tasks" and
    coll1: "collect_loop (as_completed order1 (map ?gsa tasks)) (init_state disk0) = Inr s1" and
    load1: "load_clips s1 = Inr c" and T: "T = timing c"
    by (auto simp: generate_timing_def bind_err_Inr_iff Let_def)
  let ?futures = "map ?gsa tasks"
  let ?fs1 = "as_completed order1 ?futures"
  let ?fs2 = "as_completed order2 ?futures"
  have keys: "map fst tasks = role_keys"
    using tasks by (rule audio_tasks_keys)
  have "length (map fst tasks) = length role_keys"
    using keys by simp
  then have len: "length ?futures = 9"
    by (simp add: role_keys_def)
  have m1: "mset ?fs1 = mset ?futures"
    using o1 len by (simp add: as_completed_mset)
  have m2: "mset ?fs2 = mset ?futures"
    using o2 len by (simp add: as_completed_mset)
  have "\<forall>f\<in>set ?fs1. \<not> isl f"
    using coll1 by (rule collect_loop_all_Inr)
  then have inr: "\<forall>f\<in>set ?futures. \<not> isl f"
    using mset_eq_setD [OF m1] by simp
  have "distinct (map (\<lambda>f. res_key (projr f)) ?futures)"
    using futures_keys(1) [OF inr] keys role_keys_distinct by simp
  then have dk: "distinct (map (\<lambda>f. res_key (projr f)) ?fs1)"
    using m1 by (metis mset_eq_imp_distinct_iff mset_map)
  have "distinct (map (\<lambda>f. res_path (projr f)) ?futures)"
    using futures_keys(2) [OF inr] keys role_keys_distinct
    by (simp add: distinct_map inj_on_def audio_path_inj)
  then have dp: "distinct (map (\<lambda>f. res_path (projr f)) ?fs1)"
    using m1 by (metis mset_eq_imp_distinct_iff mset_map)
  have "mset ?fs2 = mset ?fs1"
    using m1 m2 by simp
  from collect_loop_perm [OF this coll1 dk dp] obtain s2 where
    coll2: "collect_loop ?fs2 (init_state disk0) = Inr s2" and
    same: "generated_audio_paths s2 = generated_audio_paths s1" "disk s2 = disk s1"
    by blast
  have "load_clips s2 = Inr c"
    using load_clips_cong [OF same] load1 by simp
  then show ?thesis
    using tasks coll2 T by (simp add: generate_timing_def bind_err_def Let_def)
qed

lemma perm_rev9: "mset [8,7,6,5,4,3,2,1,0::nat] = mset [0..<9]"
proof -
  have "set [8,7,6,5,4,3,2,1,0::nat] = set [0..<9]"
    by auto
  then show ?thesis
    by (intro set_eq_iff_mset_eq_distinct [THEN iffD1]) simp_all
qed

lemma perm_id9: "mset [0,1,2,3,4,5,6,7,8::nat] = mset [0..<9]"
proof -
  have "set [0,1,2,3,4,5,6,7,8::nat] = set [0..<9]"
    by auto
  then show ?thesis
    by (intro set_eq_iff_mset_eq_distinct [THEN iffD1]) simp_all
qed

lemma run_submission_order:
  "generate_timing synth_by_length Map.empty ''temp'' ''v1'' quiz_script [0,1,2,3,4,5,6,7,8]
     = Inr (timing \<lparr> aud_hook = 33, aud_q = 20, aud_a = 9, aud_b = 9, aud_c = 9,
      aud_d = 7, aud_think = 11, aud_expl = 73, aud_cta = 18 \<rparr>)"
  by (simp add: generate_timing_def audio_tasks_def quiz_script_def getitem_def bind_err_def
      generate_single_audio_def as_completed_def init_state_def load_clips_def clip_duration_def
      audio_path_def synth_by_length_def)

theorem timeline_reorder_invariant_witness:
  "mset [0,1,2,3,4,5,6,7,8::nat] = mset [0..<9] \<and>
   mset [8,7,6,5,4,3,2,1,0::nat] = mset [0..<9] \<and>
   generate_timing synth_by_length Map.empty ''temp'' ''v1'' quiz_script [0,1,2,3,4,5,6,7,8]
     = Inr (timing \<lparr> aud_hook = 33, aud_q = 20, aud_a = 9, aud_b = 9, aud_c = 9,
      aud_d = 7, aud_think = 11, aud_expl = 73, aud_cta = 18 \<rparr>) \<and>
   generate_timing synth_by_length Map.empty ''temp'' ''v1'' quiz_script [8,7,6,5,4,3,2,1,0]
     = Inr (timing \<lparr> aud_hook = 33, aud_q = 20, aud_a = 9, aud_b = 9, aud_c = 9,
      aud_d = 7, aud_think = 11, aud_expl = 73, aud_cta = 18 \<rparr>)"
  using timeline_reorder_invariant [OF perm_id9 perm_rev9 run_submission_order]
    perm_id9 perm_rev9 run_submission_order
  by simp

section \<open>The think pause\<close>

text \<open>
  The tasks of the example script: the think role is the seventh narration task.
\<close>

theorem think_task_counterexample:
  "audio_tasks quiz_script = Inr
     [(''hook'', ''Most students fail this question!''),
      (''question'', ''Who studied gravity?''),
      (''opt_a'', ''A: Newton''), (''opt_b'', ''B: Darwin''),
      (''opt_c'', ''C: Mendel''), (''opt_d'', ''D: Bohr''),
      (''think'', ''Think fast!''),
      (''explanation'',
       ''The answer is A! Newton studied gravity deeply. The gravity pulls apples!''),
      (''cta'', ''Subscribe for more'')]"
  by (simp add: audio_tasks_def quiz_script_def getitem_def bind_err_def)

text \<open>
  C5 (amended). The think role does have a narration task, with the text
  \<open>Think fast!\<close>, which is synthesized like the others. The answer's start offset is
  the sum of the durations of hook, question and the four options plus the constant
  3.0, and it does not change when the duration of the think audio changes.
\<close>

theorem think_pause_constant:
  "(audio_tasks script = Inr tasks \<longrightarrow> (''think'', ''Think fast!'') \<in> set tasks) \<and>
   t_ans (timing c) = aud_hook c + aud_q c + aud_a c + aud_b c + aud_c c + aud_d c + 3.0 \<and>
   t_ans (timing (c\<lparr> aud_think := x \<rparr>)) = t_ans (timing c)"
  by (auto simp: audio_tasks_def bind_err_Inr_iff timing_sel)

theorem think_pause_constant_witness:
  "audio_tasks quiz_script = Inr
     [(''hook'', ''Most students fail this question!''),
      (''question'', ''Who studied gravity?''),
      (''opt_a'', ''A: Newton''), (''opt_b'', ''B: Darwin''),
      (''opt_c'', ''C: Mendel''), (''opt_d'', ''D: Bohr''),
      (''think'', ''Think fast!''),
      (''explanation'',
       ''The answer is A! Newton studied gravity deeply. The gravity pulls apples!''),
      (''cta'', ''Subscribe for more'')] \<and>
   (''think'', ''Think fast!'') \<in> set
     [(''hook'', ''Most students fail this question!''),
      (''question'', ''Who studied gravity?''),
      (''opt_a'', ''A: Newton''), (''opt_b'', ''B: Darwin''),
      (''opt_c'', ''C: Mendel''), (''opt_d'', ''D: Bohr''),
      (''think'', ''Think fast!''),
      (''explanation'',
       ''The answer is A! Newton studied gravity deeply. The gravity pulls apples!''),
      (''cta'', ''Subscribe for more'')] \<and>
   t_ans (timing \<lparr> aud_hook = 1, aud_q = 1, aud_a = 1, aud_b = 1, aud_c = 1, aud_d = 1,
                    aud_think = 7, aud_expl = 2, aud_cta = 1 \<rparr>) = 9"
  using think_pause_constant [of quiz_script
      "[(''hook'', ''Most students fail this question!''),
      (''question'', ''Who studied gravity?''),
      (''opt_a'', ''A: Newton''), (''opt_b'', ''B: Darwin''),
      (''opt_c'', ''C: Mendel''), (''opt_d'', ''D: Bohr''),
      (''think'', ''Think fast!''),
      (''explanation'',
       ''The answer is A! Newton studied gravity deeply. The gravity pulls apples!''),
      (''cta'', ''Subscribe for more'')]"
      "\<lparr> aud_hook = 1, aud_q = 1, aud_a = 1, aud_b = 1, aud_c = 1, aud_d = 1,
         aud_think = 7, aud_expl = 2, aud_cta = 1 \<rparr>" 7]
  by (simp add: audio_tasks_def quiz_script_def getitem_def bind_err_def)

section \<open>Placement of the narration clips\<close>

lemma overlap_iff:
  "overlap a b \<longleftrightarrow>
     (\<exists>t. fst a \<le> t \<and> t < fst a + snd a \<and> fst b \<le> t \<and> t < fst b + snd b)"
proof
  assume "overlap a b"
  then have "max (fst a) (fst b) < min (fst a + snd a) (fst b + snd b)"
    by (simp add: overlap_def)
  then show "\<exists>t. fst a \<le> t \<and> t < fst a + snd a \<and> fst b \<le> t \<and> t < fst b + snd b"
    by (intro exI [of _ "max (fst a) (fst b)"]) auto
next
  assume "\<exists>t. fst a \<le> t \<and> t < fst a + snd a \<and> fst b \<le> t \<and> t < fst b + snd b"
  then show "overlap a b"
    by (auto simp: overlap_def)
qed

text \<open>
  A think clip of 4 seconds is placed at the think start and still sounds when the
  explanation starts 3 seconds later.
\<close>

theorem narration_overlap_counterexample:
  "nonneg_clips \<lparr> aud_hook = 1, aud_q = 1, aud_a = 1, aud_b = 1, aud_c = 1, aud_d = 1,
                  aud_think = 4, aud_expl = 2, aud_cta = 1 \<rparr> \<and>
   audio_list \<lparr> aud_hook = 1, aud_q = 1, aud_a = 1, aud_b = 1, aud_c = 1, aud_d = 1,
                aud_think = 4, aud_expl = 2, aud_cta = 1 \<rparr> ! 6 = (6, 4) \<and>
   audio_list \<lparr> aud_hook = 1, aud_q = 1, aud_a = 1, aud_b = 1, aud_c = 1, aud_d = 1,
                aud_think = 4, aud_expl = 2, aud_cta = 1 \<rparr> ! 7 = (9, 2) \<and>
   overlap (6, 4) (9, 2) \<and>
   \<not> no_overlaps (audio_list \<lparr> aud_hook = 1, aud_q = 1, aud_a = 1, aud_b = 1, aud_c = 1,
                aud_d = 1, aud_think = 4, aud_expl = 2, aud_cta = 1 \<rparr>)"
  by (simp add: audio_list_def Let_def timing_sel overlap_def nonneg_clips_def)

text \<open>
  C6 (amended). Each narration clip is placed at its timeline start with its own
  duration, and the placed intervals are pairwise disjoint whenever the durations are
  non-negative and the think audio is no longer than the 3.0-second think pause.
\<close>

theorem narration_no_overlap:
  "map fst (audio_list c) = butlast (starts (timing c)) \<and>
   map snd (audio_list c) =
     [aud_hook c, aud_q c, aud_a c, aud_b c, aud_c c, aud_d c, aud_think c, aud_expl c,
      aud_cta c] \<and>
   (nonneg_clips c \<and> aud_think c \<le> 3.0 \<longrightarrow> no_overlaps (audio_list c))"
  by (simp add: audio_list_def Let_def timing_sel overlap_def nonneg_clips_def starts_def)

theorem narration_no_overlap_witness:
  "nonneg_clips \<lparr> aud_hook = 1, aud_q = 1, aud_a = 1, aud_b = 1, aud_c = 1, aud_d = 1,
                  aud_think = 3, aud_expl = 2, aud_cta = 1 \<rparr> \<and>
   aud_think \<lparr> aud_hook = 1, aud_q = 1, aud_a = 1, aud_b = 1, aud_c = 1, aud_d = 1,
               aud_think = 3, aud_expl = 2, aud_cta = 1 \<rparr> \<le> 3.0 \<and>
   no_overlaps (audio_list \<lparr> aud_hook = 1, aud_q = 1, aud_a = 1, aud_b = 1, aud_c = 1,
                aud_d = 1, aud_think = 3, aud_expl = 2, aud_cta = 1 \<rparr>)"
  using narration_no_overlap [of "\<lparr> aud_hook = 1, aud_q = 1, aud_a = 1, aud_b = 1,
      aud_c = 1, aud_d = 1, aud_think = 3, aud_expl = 2, aud_cta = 1 \<rparr>"]
  by (simp add: nonneg_clips_def)

section \<open>Transcript search\<close>

lemma scan_segments_None:
  "scan_segments segs kw t = None \<longleftrightarrow> (\<forall>seg\<in>set segs. \<not> matches kw t seg)"
  by (induction segs) (auto simp: matches_def)

lemma scan_segments_first:
  assumes "i < length segs" "matches kw t (segs ! i)" "\<forall>j<i. \<not> matches kw t (segs ! j)"
  shows "scan_segments segs kw t = Some (seg_start (segs ! i))"
  using assms
proof (induction segs arbitrary: i)
  case Nil
  then show ?case by simp
next
  case (Cons seg segs)
  show ?case
  proof (cases i)
    case 0
    with Cons.prems show ?thesis by (simp add: matches_def)
  next
    case (Suc k)
    with Cons.prems have "\<not> matches kw t seg" by auto
    moreover have "scan_segments segs kw t = Some (seg_start (segs ! k))"
      using Cons.prems Suc by (intro Cons.IH) auto
    ultimately show ?thesis using Suc by (auto simp: matches_def)
  qed
qed

text \<open>
  C3. \<open>find_best_timestamp\<close> returns the start of the first segment, in index order,
  that starts at or after \<open>not_before\<close> and whose text contains the keyword ignoring
  case; when no segment is such, when the keyword is \<open>None\<close>, or when it has at most
  three characters, it returns exactly \<open>not_before + 40\<close>.
\<close>

theorem find_best_timestamp_spec:
  "(keyword = None \<or> (\<exists>k. keyword = Some k \<and> length k \<le> 3) \<longrightarrow>
      find_best_timestamp segs keyword not_before = not_before + 40) \<and>
   (keyword = Some kw \<and> 3 < length kw \<and> (\<forall>seg\<in>set segs. \<not> matches kw not_before seg) \<longrightarrow>
      find_best_timestamp segs keyword not_before = not_before + 40) \<and>
   (keyword = Some kw \<and> 3 < length kw \<and> i < length segs \<and> matches kw not_before (segs ! i) \<and>
      (\<forall>j<i. \<not> matches kw not_before (segs ! j)) \<longrightarrow>
      find_best_timestamp segs keyword not_before = seg_start (segs ! i))"
proof (intro conjI impI)
  assume "keyword = None \<or> (\<exists>k. keyword = Some k \<and> length k \<le> 3)"
  then show "find_best_timestamp segs keyword not_before = not_before + 40"
    by (cases keyword) (auto simp: find_best_timestamp_def)
next
  assume a: "keyword = Some kw \<and> 3 < length kw \<and> (\<forall>seg\<in>set segs. \<not> matches kw not_before seg)"
  then have "scan_segments segs kw not_before = None"
    by (simp add: scan_segments_None)
  with a show "find_best_timestamp segs keyword not_before = not_before + 40"
    by (auto simp: find_best_timestamp_def)
next
  assume a: "keyword = Some kw \<and> 3 < length kw \<and> i < length segs \<and>
     matches kw not_before (segs ! i) \<and> (\<forall>j<i. \<not> matches kw not_before (segs ! j))"
  then have "scan_segments segs kw not_before = Some (seg_start (segs ! i))"
    by (intro scan_segments_first) auto
  with a show "find_best_timestamp segs keyword not_before = seg_start (segs ! i)"
    by (auto simp: find_best_timestamp_def)
qed

lemma transcript_example_matches:
  "\<not> matches ''gravity'' 0 (transcript_example ! 0)"
  "matches ''gravity'' 0 (transcript_example ! 1)"
  "\<forall>seg\<in>set transcript_example. \<not> matches ''photosynthesis'' 0 seg"
  by (simp_all add: transcript_example_def matches_def lower_def lower_char_def
      sublist_code prefix_code)

theorem find_best_timestamp_spec_witness:
  "length ''sun'' \<le> 3 \<and>
   find_best_timestamp transcript_example None 10.0 = 50.0 \<and>
   find_best_timestamp transcript_example (Some ''sun'') 10.0 = 50.0 \<and>
   3 < length ''photosynthesis'' \<and>
   find_best_timestamp transcript_example (Some ''photosynthesis'') 0 = 40 \<and>
   3 < length ''gravity'' \<and> 1 < length transcript_example \<and>
   matches ''gravity'' 0 (transcript_example ! 1) \<and>
   \<not> matches ''gravity'' 0 (transcript_example ! 0) \<and>
   find_best_timestamp transcript_example (Some ''gravity'') 0 = 12.0"
  using find_best_timestamp_spec [of None transcript_example "10.0" "''gravity''" 0]
    find_best_timestamp_spec [of "Some ''sun''" transcript_example "10.0" "''gravity''" 0]
    find_best_timestamp_spec [of "Some ''photosynthesis''" transcript_example 0
      "''photosynthesis''" 0]
    find_best_timestamp_spec [of "Some ''gravity''" transcript_example 0 "''gravity''" 1]
    transcript_example_matches
  by (simp add: transcript_example_def)

section \<open>Micro zoom\<close>



section \<open>Keyword extraction\<close>

lemma split_from_space: "isspace c \<Longrightarrow> split_from [] (c # s) = split_from [] s"
  by simp

lemma split_from_snoc_space: "isspace c \<Longrightarrow> split_from cur (s @ [c]) = split_from cur s"
  by (induction s arbitrary: cur) auto

lemma isspace_space: "isspace CHR '' ''"
  by (simp add: isspace_def)

lemma lower_space: "lower_char CHR '' '' = CHR '' ''"
  by (simp add: lower_char_def)

lemma split_padded: "split (lower ('' '' @ e @ '' '' @ [] @ '' '' @ [])) = split (lower e)"
proof -
  have "lower ('' '' @ e @ '' '' @ [] @ '' '' @ []) = CHR '' '' # ((lower e @ '' '') @ '' '')"
    by (simp add: lower_def lower_space)
  then show ?thesis
    by (simp only: split_def split_from_space [OF isspace_space] split_from_snoc_space [OF isspace_space])
qed

lemma dedup_loop_first_occurrences:
  "dedup_loop ws seen acc = acc @ filter (\<lambda>w. w \<notin> seen) (first_occurrences ws)"
proof (induction ws arbitrary: seen acc)
  case Nil
  then show ?case by simp
next
  case (Cons w ws)
  have "filter (\<lambda>x. x \<notin> insert w seen) xs = filter (\<lambda>x. x \<notin> seen) (removeAll w xs)" for xs
    by (induction xs) auto
  moreover have "w \<in> seen \<Longrightarrow> filter (\<lambda>x. x \<notin> seen) (removeAll w xs) = filter (\<lambda>x. x \<notin> seen) xs" for xs
    by (induction xs) auto
  ultimately show ?case
    using Cons.IH by simp
qed

lemma first_occurrences_set: "set (first_occurrences xs) = set xs"
  by (induction xs) auto

lemma first_occurrences_distinct: "distinct (first_occurrences xs)"
  by (induction xs) (auto simp: first_occurrences_set distinct_removeAll)

lemma clean_words_explicit:
  "clean_words ws =
     map (strip ''.,?!'')
       (filter
          (\<lambda>w. strip ''.,?!'' w \<notin>
                 {''the'', ''a'', ''an'', ''is'', ''are'', ''was'', ''were'', ''what'', ''to'',
                  ''in'', ''of'', ''and'', ''for'', ''on'', ''with'', ''at'', ''by'', ''this'',
                  ''that'', ''these'', ''those'', ''which'', ''who'', ''when'', ''where'',
                  ''how'', ''why''} \<and>
               4 < length w)
          ws)"
  by (simp add: clean_words_def stop_words_def)

text \<open>
  C10. For a script whose fields are those of the quiz format, the keyword queue is the
  order-preserving deduplication of the words of \<open>explanation_spoken\<close> alone (lower-cased
  and split at whitespace) that have a raw length above 4 and are, once stripped of
  \<open>.,?!\<close>, none of the 27 stop words; each is taken stripped. The fields
  \<open>question_text\<close>, \<open>fact_details\<close> and \<open>tip_content\<close> are not quiz fields and contribute
  the empty string, so no other field of the script reaches the queue.
\<close>

theorem quiz_keywords:
  assumes "dom script \<subseteq> set quiz_fields"
  shows "extract_keywords_ordered script =
     first_occurrences
       (map (strip ''.,?!'')
          (filter
             (\<lambda>w. strip ''.,?!'' w \<notin>
                    {''the'', ''a'', ''an'', ''is'', ''are'', ''was'', ''were'', ''what'', ''to'',
                     ''in'', ''of'', ''and'', ''for'', ''on'', ''with'', ''at'', ''by'', ''this'',
                     ''that'', ''these'', ''those'', ''which'', ''who'', ''when'', ''where'',
                     ''how'', ''why''} \<and>
                  4 < length w)
             (split (lower (dict_get script ''explanation_spoken'' []))))) \<and>
   distinct (extract_keywords_ordered script)"
proof -
  have "''question_text'' \<notin> set quiz_fields" "''fact_details'' \<notin> set quiz_fields"
    "''tip_content'' \<notin> set quiz_fields"
    by (simp_all add: quiz_fields_def)
  with assms have "script ''question_text'' = None" "script ''fact_details'' = None"
    "script ''tip_content'' = None"
    by blast+
  then have "dict_get script ''question_text'' [] = []"
    "dict_get script ''fact_details'' [] = []" "dict_get script ''tip_content'' [] = []"
    by (simp_all add: dict_get_def)
  then have "extract_keywords_ordered script =
      first_occurrences (clean_words (split (lower (dict_get script ''explanation_spoken'' []))))"
    using split_padded [of "dict_get script ''explanation_spoken'' []"]
    by (simp add: extract_keywords_ordered_def Let_def dedup_loop_first_occurrences)
  then show ?thesis
    by (simp only: clean_words_explicit first_occurrences_distinct simp_thms)
qed

lemma quiz_script_stop_words_fields: "dom quiz_script_stop_words \<subseteq> set quiz_fields"
  by (simp add: quiz_script_stop_words_def quiz_fields_def dom_map_of_conv_image_fst)

lemma quiz_script_stop_words_split:
  "split (lower (dict_get quiz_script_stop_words ''explanation_spoken'' [])) =
     [''which'', ''force'', ''pulls'', ''these'', ''apples'', ''down?'', ''gravity,'',
      ''where'', ''newton'', ''what?!'', ''said'', ''pull'', ''harder.'', ''the'',
      ''gravity'', ''pulls.'']"
  by (simp add: quiz_script_stop_words_def dict_get_def lower_def lower_char_def split_def
      isspace_def)

theorem quiz_keywords_witness:
  "dom quiz_script_stop_words \<subseteq> set quiz_fields \<and>
   dict_get quiz_script_stop_words ''question_spoken'' [] =
     ''Which scientist explained falling bodies?'' \<and>
   dict_get quiz_script_stop_words ''explanation_spoken'' [] =
     ''Which force pulls these apples down? Gravity, where Newton what?! said pull harder. The gravity pulls.'' \<and>
   extract_keywords_ordered quiz_script_stop_words =
     [''force'', ''pulls'', ''apples'', ''down'', ''gravity'', ''newton'', ''harder'']"
proof -
  have "extract_keywords_ordered quiz_script_stop_words =
     [''force'', ''pulls'', ''apples'', ''down'', ''gravity'', ''newton'', ''harder'']"
    using quiz_keywords [OF quiz_script_stop_words_fields]
    by (simp add: quiz_script_stop_words_split strip_def)
  then show ?thesis
    using quiz_script_stop_words_fields
    by (simp add: quiz_script_stop_words_def dict_get_def)
qed

lemma quiz_script_keywords_example:
  "extract_keywords_ordered quiz_script =
     [''newton'', ''studied'', ''gravity'', ''deeply'', ''pulls'', ''apples'']"
  by (simp add: extract_keywords_ordered_def quiz_script_def dict_get_def lower_def
      lower_char_def split_def isspace_def clean_words_def strip_def stop_words_def)

section \<open>Scene selection\<close>

lemma loop_body_step:
  assumes d: "\<forall>i. 1.5 \<le> draws env i"
    and inv: "loop_inv env st"
    and run: "current_generated_duration st < total_duration env"
  shows "\<exists>st'. loop_body env st = Inr st' \<and> loop_inv env st' \<and>
           length (final_clips st) \<le> length (final_clips st') \<and>
           (current_generated_duration st' = total_duration env \<or>
            current_generated_duration st + 1.5 \<le> current_generated_duration st')"
proof -
  define len where "len = min (draws env (clip_index st))
      (total_duration env - current_generated_duration st)"
  have dr: "1.5 \<le> draws env (clip_index st)" using d by simp
  have pos: "0 < len" using dr run by (simp add: len_def)
  then have "\<exists>zoom. apply_micro_zoom (clip_index st) len = Inr zoom"
    by (simp add: apply_micro_zoom_def Let_def)
  then obtain zoom where z: "apply_micro_zoom (clip_index st) len = Inr zoom"
    by blast
  have len_alt: "(if total_duration env - current_generated_duration st < draws env (clip_index st)
          then total_duration env - current_generated_duration st
          else draws env (clip_index st)) = len"
    by (simp add: len_def min_def)
  obtain st' where body: "loop_body env st = Inr st'"
    and clips: "\<exists>s. final_clips st' = final_clips st @ [s] \<and> scene_len s = len"
    and cur: "current_generated_duration st' = current_generated_duration st + len"
    and idx: "clip_index st' = clip_index st + 1"
    using z by (simp add: loop_body_def Let_def len_alt)
  from clips obtain s where s: "final_clips st' = final_clips st @ [s]" "scene_len s = len"
    by blast
  have n: "length (final_clips st) = clip_index st"
    and sm: "sum_list (map scene_len (final_clips st)) = current_generated_duration st"
    and wc: "well_cut env (final_clips st)"
    and full: "\<forall>i<length (final_clips st). scene_len (final_clips st ! i) = draws env i"
    using inv run by (simp_all add: loop_inv_def)
  have wc': "well_cut env (final_clips st')"
    unfolding well_cut_def
  proof (intro conjI allI impI)
    fix i assume "i < length (final_clips st')"
    then have "i < length (final_clips st) \<or> i = length (final_clips st)"
      using s(1) by auto
    then consider "i < length (final_clips st)" | "i = length (final_clips st)"
      by blast
    then show "scene_len (final_clips st' ! i) =
        min (draws env i) (total_duration env - sum_list (map scene_len (take i (final_clips st'))))"
    proof cases
      case 1
      then show ?thesis using wc s by (simp add: well_cut_def nth_append)
    next
      case 2
      then show ?thesis using s n sm by (simp add: len_def nth_append)
    qed
  next
    fix i assume "Suc i < length (final_clips st')"
    then have "i < length (final_clips st)" using s by simp
    then show "scene_len (final_clips st' ! i) = draws env i"
      using full s by (simp add: nth_append)
  qed
  have le: "current_generated_duration st' \<le> total_duration env"
    using cur by (simp add: len_def)
  have full': "current_generated_duration st' < total_duration env \<longrightarrow>
        (\<forall>i<length (final_clips st'). scene_len (final_clips st' ! i) = draws env i)"
  proof (intro impI allI)
    fix i assume lt: "current_generated_duration st' < total_duration env"
      and i: "i < length (final_clips st')"
    from lt cur have "len = draws env (clip_index st)"
      by (simp add: len_def min_def split: if_splits)
    then show "scene_len (final_clips st' ! i) = draws env i"
      using i s full n by (cases "i < length (final_clips st)") (auto simp: nth_append less_Suc_eq)
  qed
  have "loop_inv env st'"
    using s sm cur idx n wc' le full' by (simp add: loop_inv_def)
  moreover have "current_generated_duration st' = total_duration env \<or>
            current_generated_duration st + 1.5 \<le> current_generated_duration st'"
    using cur dr by (auto simp: len_def min_def)
  moreover have "length (final_clips st) \<le> length (final_clips st')"
    using s by simp
  ultimately show ?thesis using body by blast
qed

lemma select_loop_terminates:
  assumes d: "\<forall>i. 1.5 \<le> draws env i"
    and inv: "loop_inv env st"
  shows "\<exists>segs. select_loop env st = Some (Inr segs) \<and>
           sum_list (map scene_len segs) = total_duration env \<and> well_cut env segs \<and>
           length (final_clips st) \<le> length segs"
  using inv
proof (induction "nat \<lceil>total_duration env - current_generated_duration st\<rceil>"
    arbitrary: st rule: less_induct)
  case less
  show ?case
  proof (cases "current_generated_duration st < total_duration env")
    case True
    from loop_body_step [OF d less.prems True] obtain st' where
      body: "loop_body env st = Inr st'" and inv': "loop_inv env st'" and
      mono: "length (final_clips st) \<le> length (final_clips st')" and
      prog: "current_generated_duration st' = total_duration env \<or>
            current_generated_duration st + 1.5 \<le> current_generated_duration st'"
      by blast
    have "nat \<lceil>total_duration env - current_generated_duration st'\<rceil>
        < nat \<lceil>total_duration env - current_generated_duration st\<rceil>"
      using prog True by (auto simp: less_ceiling_iff) linarith+
    from less.hyps [OF this inv'] obtain segs where
      "select_loop env st' = Some (Inr segs)"
      "sum_list (map scene_len segs) = total_duration env" "well_cut env segs"
      "length (final_clips st') \<le> length segs"
      by blast
    moreover have "select_loop env st = select_loop env st'"
      using True body by (subst select_loop.simps) simp
    ultimately show ?thesis using mono by auto
  next
    case False
    then have "select_loop env st = Some (Inr (final_clips st))"
      by (subst select_loop.simps) simp
    moreover have "current_generated_duration st = total_duration env"
      using False less.prems by (simp add: loop_inv_def)
    ultimately show ?thesis
      using less.prems by (simp add: loop_inv_def)
  qed
qed

text \<open>
  C4. For a positive target duration and draws within \<open>[1.5, 2.5]\<close>, the loop ends, no
  step raises, and the lengths of the emitted segments sum to the target exactly: each
  segment has the length of its draw, except that a draw exceeding what is still
  missing is replaced by exactly that remainder, which makes the segment the last one.
\<close>

theorem scene_selection_total:
  assumes "0 < target" and "\<forall>i. 1.5 \<le> uniform_len i \<and> uniform_len i \<le> 2.5"
  shows "\<exists>segs.
     prepare_video_for_short vid_duration tr target script uniform_len uniform_start
       = Some (Inr segs) \<and>
     sum_list (map scene_len segs) = target \<and>
     (\<forall>i<length segs. scene_len (segs ! i) =
        min (uniform_len i) (target - sum_list (map scene_len (take i segs)))) \<and>
     (\<forall>i. Suc i < length segs \<longrightarrow> scene_len (segs ! i) = uniform_len i)"
proof -
  define safe where "safe = (if vid_duration - 5.0 < 10 then vid_duration else vid_duration - 5.0)"
  define env where "env = \<lparr> total_duration = target, safe_duration = safe, transcript = tr,
      keyword_list = (case script of None \<Rightarrow> [] | Some s \<Rightarrow> extract_keywords_ordered s),
      draws = uniform_len, rewinds = uniform_start \<rparr>"
  define st0 where "st0 = \<lparr> final_clips = [], current_generated_duration = 0.0,
      current_time_marker = 0.0, clip_index = 0 \<rparr>"
  have run: "prepare_video_for_short vid_duration tr target script uniform_len uniform_start
      = select_loop env st0"
    by (simp add: prepare_video_for_short_def Let_def env_def st0_def safe_def)
  have d: "\<forall>i. 1.5 \<le> draws env i"
    using assms(2) by (simp add: env_def)
  have inv: "loop_inv env st0"
    using assms(1) by (simp add: loop_inv_def well_cut_def env_def st0_def)
  from select_loop_terminates [OF d inv] obtain segs where
    "select_loop env st0 = Some (Inr segs)" "sum_list (map scene_len segs) = total_duration env"
    "well_cut env segs"
    by blast
  then show ?thesis
    using run by (auto simp: well_cut_def env_def)
qed

lemma run_selection_example:
  "map_option (map_sum id (map (\<lambda>s. (scene_start s, scene_len s, scene_index s))))
     (prepare_video_for_short 60 transcript_example 4 None (\<lambda>i. 2.5) (\<lambda>i. 1))
   = Some (Inr [(40, 2.5, 0), (1, 1.5, 1)])"
  by (simp add: prepare_video_for_short_def select_loop.simps loop_body_def Let_def
      find_best_timestamp_def apply_micro_zoom_def)

theorem scene_selection_total_witness:
  "(0::real) < 4 \<and> (\<forall>i::nat. (1.5::real) \<le> 2.5 \<and> (2.5::real) \<le> 2.5) \<and>
   map_option (map_sum id (map (\<lambda>s. (scene_start s, scene_len s, scene_index s))))
     (prepare_video_for_short 60 transcript_example 4 None (\<lambda>i. 2.5) (\<lambda>i. 1))
     = Some (Inr [(40, 2.5, 0), (1, 1.5, 1)]) \<and>
   (\<exists>segs. prepare_video_for_short 60 transcript_example 4 None (\<lambda>i. 2.5) (\<lambda>i. 1)
              = Some (Inr segs) \<and>
           sum_list (map scene_len segs) = 4)"
proof -
  have h: "\<forall>i::nat. (1.5::real) \<le> 2.5 \<and> (2.5::real) \<le> 2.5"
    by simp
  have p: "(0::real) < 4"
    by simp
  from scene_selection_total [OF p h, of 60 transcript_example None "\<lambda>i. 1"]
  have "\<exists>segs. prepare_video_for_short 60 transcript_example 4 None (\<lambda>i. 2.5) (\<lambda>i. 1)
              = Some (Inr segs) \<and> sum_list (map scene_len segs) = 4"
    by blast
  then show ?thesis
    using run_selection_example h p by blast
qed

section \<open>The SFX layer of the quiz\<close>

lemma cue_of_clip:
  "map (\<lambda>c. (clip_name c, clip_start c)) (append_clip (get_clip env name t v)) =
     filter (\<lambda>p. loads env (fst p)) [(name, t)]"
  by (simp add: append_clip_def get_clip_def loads_def split: option.splits)

lemma tick_cues:
  "map (\<lambda>c. (clip_name c, clip_start c))
     (concat (map (\<lambda>i. append_clip (get_clip env ''tick'' (f i) v)) xs)) =
   filter (\<lambda>p. loads env (fst p)) (map (\<lambda>i. (''tick'', f i)) xs)"
  by (induction xs) (simp_all add: cue_of_clip)

lemma upt_12: "[0..<12] = [0, 1, 2, 3, 4, 5, 6, 7, 8, 9, 10, 11]"
  by code_simp

text \<open>
  With a pause of 6 seconds between think and answer, the twelve ticks still sit
  0.25 seconds apart and end 2.75 seconds after the think start: they are not spaced
  across the pause.
\<close>

theorem sfx_ticks_counterexample:
  "timings_long_pause ''think'' = Some 10 \<and> timings_long_pause ''ans'' = Some 16 \<and>
   map clip_start
     (filter (\<lambda>c. clip_name c = ''tick'') (generate_quiz_sfx sfx_env_all timings_long_pause))
     = [10, 10.25, 10.5, 10.75, 11, 11.25, 11.5, 11.75, 12, 12.25, 12.5, 12.75] \<and>
   map clip_start
     (filter (\<lambda>c. clip_name c = ''tick'') (generate_quiz_sfx sfx_env_all timings_long_pause))
     \<noteq> map (\<lambda>i. 10 + real i * ((16 - 10) / 12)) [0..<12]"
  by (simp add: timings_long_pause_def generate_quiz_sfx_def sfx_env_all_def get_clip_def
      resolve_path_def assets_def path_join_def append_clip_def Let_def upt_12)

text \<open>
  C7 (amended). For a timings dict with the quiz roles, the layer holds, in this order
  and each only when its asset file is found and loads: the whoosh at
  \<open>question.start - 0.2\<close>, a pop at each option's start, twelve ticks at
  \<open>think.start + i * 0.25\<close> for \<open>i = 0, ..., 11\<close>, the success chime at the answer
  start, the transition cue at the cta start and the closing cue at the outro start.
  The tick spacing is fixed: it is one twelfth of the 3.0-second think constant,
  whatever the pause in the timings is.
\<close>

theorem sfx_cue_placement:
  assumes "timings ''q'' = Some q" "timings ''a'' = Some a" "timings ''b'' = Some b"
    "timings ''c'' = Some c" "timings ''d'' = Some d" "timings ''think'' = Some think"
    "timings ''ans'' = Some ans" "timings ''cta'' = Some cta" "timings ''outro'' = Some outro"
  shows "map (\<lambda>c. (clip_name c, clip_start c)) (generate_quiz_sfx env timings) =
     filter (\<lambda>p. loads env (fst p)) (quiz_cues q a b c d think ans cta outro)"
proof -
  have ticks: "map (\<lambda>c. (clip_name c, clip_start c))
       (concat (map (\<lambda>i. append_clip (get_clip env ''tick'' (think + real i * 0.25) 0.6))
          [0..<12])) =
     filter (\<lambda>p. loads env (fst p))
       (map (\<lambda>i. (''tick'', think + real i * (THINK_TIME / 12))) [0..<12])"
    by (simp only: tick_cues) (simp add: THINK_TIME_def)
  show ?thesis
    unfolding generate_quiz_sfx_def quiz_cues_def Let_def
    by (simp only: assms option.case map_append filter_append ticks cue_of_clip
        list.map concat.simps append_Nil2 filter.simps fst_conv)
      (simp add: cue_of_clip)
qed

lemma replace_pop_example:
  "replace ''.mp3'' ''.wav'' ''config/sfx/pop_soft.mp3'' = ''config/sfx/pop_soft.wav''"
  by (simp add: prefix_code)

lemma sfx_env_all_loads:
  "loads sfx_env_all ''whoosh''" "loads sfx_env_all ''pop''" "loads sfx_env_all ''tick''"
  "loads sfx_env_all ''success''" "loads sfx_env_all ''flip''" "loads sfx_env_all ''swish_low''"
  by (simp_all add: loads_def resolve_path_def assets_def sfx_env_all_def Let_def)

theorem sfx_cue_placement_witness:
  "map (\<lambda>c. (clip_name c, clip_start c))
     (generate_quiz_sfx sfx_env_all
        (sfx_timings (timing \<lparr> aud_hook = 1, aud_q = 1, aud_a = 1, aud_b = 1, aud_c = 1,
           aud_d = 1, aud_think = 1, aud_expl = 2, aud_cta = 1 \<rparr>))) =
   [(''whoosh'', 0.8), (''pop'', 2), (''pop'', 3), (''pop'', 4), (''pop'', 5),
    (''tick'', 6), (''tick'', 6.25), (''tick'', 6.5), (''tick'', 6.75),
    (''tick'', 7), (''tick'', 7.25), (''tick'', 7.5), (''tick'', 7.75),
    (''tick'', 8), (''tick'', 8.25), (''tick'', 8.5), (''tick'', 8.75),
    (''success'', 9), (''flip'', 11), (''swish_low'', 12)]"
  using sfx_cue_placement [of
      "sfx_timings (timing \<lparr> aud_hook = 1, aud_q = 1, aud_a = 1, aud_b = 1, aud_c = 1,
           aud_d = 1, aud_think = 1, aud_expl = 2, aud_cta = 1 \<rparr>)"
      1 2 3 4 5 6 9 11 12 sfx_env_all]
  by (simp add: sfx_timings_def timing_sel quiz_cues_def sfx_env_all_loads THINK_TIME_def
      upt_12)

section \<open>Background music\<close>

lemma get_theme_Inr: "\<exists>theme. get_theme theme_name = Inr theme"
  by (simp add: get_theme_def getitem_def bind_err_def THEMES_def)

lemma add_background_music_unfold:
  "add_background_music env total_time theme_name =
     (if select_tracks env (mood_of theme_name) = [] then Inr VoiceOnly
      else case music_try env (random_choice env (select_tracks env (mood_of theme_name)))
                  total_time of
             Inl e \<Rightarrow> Inr VoiceOnly
           | Inr m \<Rightarrow> Inr m)"
proof -
  obtain theme where "get_theme theme_name = Inr theme"
    using get_theme_Inr by blast
  then show ?thesis
    by (simp add: add_background_music_def mood_of_def bind_err_def Let_def)
qed

lemma add_background_music_total:
  "\<exists>m. add_background_music env total_time theme_name = Inr m"
  by (simp add: add_background_music_unfold split: sum.splits)

lemma select_tracks_cases:
  "select_tracks env mood =
     (if glob env (path_join (path_join (music_dir env) mood) ''*.mp3'') \<noteq> []
      then glob env (path_join (path_join (music_dir env) mood) ''*.mp3'')
      else if glob env (path_join (music_dir env) ''*.mp3'') \<noteq> []
      then glob env (path_join (music_dir env) ''*.mp3'')
      else if file_exists env ''config/music.mp3'' then [''config/music.mp3'']
      else [])"
  by (simp add: select_tracks_def Let_def)

lemma music_try_load_error:
  "track_duration env chosen = Inl e \<Longrightarrow> music_try env chosen total_time = Inl e"
  by (simp add: music_try_def bind_err_def)

lemma music_try_compose_error:
  "compose_raises env = Some e \<Longrightarrow> \<exists>e'. music_try env chosen total_time = Inl e'"
  by (cases "track_duration env chosen") (simp_all add: music_try_def bind_err_def Let_def)

lemma music_try_cut:
  assumes "track_duration env chosen = Inr d" "total_time \<le> d" "compose_raises env = None"
  shows "music_try env chosen total_time = Inr (WithMusic
           \<lparr> bed_track = chosen, bed_normalized = (\<not> normalize_raises env chosen),
             bed_source_duration = d, bed_duration = total_time, bed_volume = 0.12 \<rparr>)"
  using assms by (simp add: music_try_def bind_err_def Let_def)

text \<open>
  A track shorter than the total duration: the loop is attempted, the attribute
  lookup raises, and the handler returns the voice track.
\<close>

lemma music_try_short_track:
  assumes "track_duration env chosen = Inr d" "d < total_time"
  shows "music_try env chosen total_time = Inl (AttributeError ''loop'')"
  using assms by (simp add: music_try_def bind_err_def Let_def)

lemma add_background_music_short_track:
  assumes "select_tracks env (mood_of theme_name) \<noteq> []"
    and "track_duration env (random_choice env (select_tracks env (mood_of theme_name))) = Inr d"
    and "d < total_time"
  shows "add_background_music env total_time theme_name = Inr VoiceOnly"
  using assms by (simp add: add_background_music_unfold music_try_short_track)

text \<open>
  A track that loads but fails to normalize is still mixed in: the result is not the
  voice-only mix.
\<close>

theorem music_normalize_counterexample:
  "add_background_music (music_env_example glob_energetic False True) 5 ''energetic_yellow'' =
     Inr (WithMusic
       \<lparr> bed_track = ''config/music/energetic/beat.mp3'', bed_normalized = False,
         bed_source_duration = 10, bed_duration = 5, bed_volume = 0.12 \<rparr>)"
  by (simp add: add_background_music_def get_theme_def getitem_def bind_err_def THEMES_def
      dict_get_def select_tracks_def path_join_def music_env_example_def glob_energetic_def
      music_try_def Let_def)

text \<open>
  C8 (amended). Adding background music never raises. The track is chosen among the
  mood-matched tracks; without any, among the tracks of the shared music directory;
  without those, it is the legacy default track; and with no music asset at all the
  voice track is returned unchanged. A track that fails to load, and any other
  exception inside the \<open>try\<close> block such as a failure to cut or compose, degrades to the
  voice-only mix; a track that fails to normalize is mixed in un-normalized. A loaded
  track at least as long as the total duration is cut so that the music bed spans
  exactly the total duration, at gain 0.12.
\<close>

theorem background_music_degrades:
  "(\<exists>m. add_background_music env total_time theme_name = Inr m) \<and>
   (glob env (path_join (path_join (music_dir env) (mood_of theme_name)) ''*.mp3'') \<noteq> [] \<longrightarrow>
      select_tracks env (mood_of theme_name) =
        glob env (path_join (path_join (music_dir env) (mood_of theme_name)) ''*.mp3'')) \<and>
   (glob env (path_join (path_join (music_dir env) (mood_of theme_name)) ''*.mp3'') = [] \<and>
    glob env (path_join (music_dir env) ''*.mp3'') \<noteq> [] \<longrightarrow>
      select_tracks env (mood_of theme_name) = glob env (path_join (music_dir env) ''*.mp3'')) \<and>
   (glob env (path_join (path_join (music_dir env) (mood_of theme_name)) ''*.mp3'') = [] \<and>
    glob env (path_join (music_dir env) ''*.mp3'') = [] \<and>
    file_exists env ''config/music.mp3'' \<longrightarrow>
      select_tracks env (mood_of theme_name) = [''config/music.mp3'']) \<and>
   (glob env (path_join (path_join (music_dir env) (mood_of theme_name)) ''*.mp3'') = [] \<and>
    glob env (path_join (music_dir env) ''*.mp3'') = [] \<and>
    \<not> file_exists env ''config/music.mp3'' \<longrightarrow>
      add_background_music env total_time theme_name = Inr VoiceOnly) \<and>
   (select_tracks env (mood_of theme_name) \<noteq> [] \<and>
    track_duration env (random_choice env (select_tracks env (mood_of theme_name))) = Inl e \<longrightarrow>
      add_background_music env total_time theme_name = Inr VoiceOnly) \<and>
   (select_tracks env (mood_of theme_name) \<noteq> [] \<and>
    music_try env (random_choice env (select_tracks env (mood_of theme_name))) total_time
      = Inl e \<longrightarrow>
      add_background_music env total_time theme_name = Inr VoiceOnly) \<and>
   (select_tracks env (mood_of theme_name) \<noteq> [] \<and> compose_raises env = Some e \<longrightarrow>
      add_background_music env total_time theme_name = Inr VoiceOnly) \<and>
   (select_tracks env (mood_of theme_name) \<noteq> [] \<and>
    track_duration env (random_choice env (select_tracks env (mood_of theme_name))) = Inr d \<and>
    total_time \<le> d \<and> compose_raises env = None \<longrightarrow>
      add_background_music env total_time theme_name = Inr (WithMusic
        \<lparr> bed_track = random_choice env (select_tracks env (mood_of theme_name)),
          bed_normalized =
            (\<not> normalize_raises env (random_choice env (select_tracks env (mood_of theme_name)))),
          bed_source_duration = d, bed_duration = total_time, bed_volume = 0.12 \<rparr>))"
proof (intro conjI impI)
  show "\<exists>m. add_background_music env total_time theme_name = Inr m"
    by (rule add_background_music_total)
next
  assume "glob env (path_join (path_join (music_dir env) (mood_of theme_name)) ''*.mp3'') \<noteq> []"
  then show "select_tracks env (mood_of theme_name) =
        glob env (path_join (path_join (music_dir env) (mood_of theme_name)) ''*.mp3'')"
    by (simp add: select_tracks_cases)
next
  assume "glob env (path_join (path_join (music_dir env) (mood_of theme_name)) ''*.mp3'') = [] \<and>
    glob env (path_join (music_dir env) ''*.mp3'') \<noteq> []"
  then show "select_tracks env (mood_of theme_name) = glob env (path_join (music_dir env) ''*.mp3'')"
    by (simp add: select_tracks_cases)
next
  assume "glob env (path_join (path_join (music_dir env) (mood_of theme_name)) ''*.mp3'') = [] \<and>
    glob env (path_join (music_dir env) ''*.mp3'') = [] \<and>
    file_exists env ''config/music.mp3''"
  then show "select_tracks env (mood_of theme_name) = [''config/music.mp3'']"
    by (simp add: select_tracks_cases)
next
  assume "glob env (path_join (path_join (music_dir env) (mood_of theme_name)) ''*.mp3'') = [] \<and>
    glob env (path_join (music_dir env) ''*.mp3'') = [] \<and>
    \<not> file_exists env ''config/music.mp3''"
  then have "select_tracks env (mood_of theme_name) = []"
    by (simp add: select_tracks_cases)
  then show "add_background_music env total_time theme_name = Inr VoiceOnly"
    by (simp add: add_background_music_unfold)
next
  assume "select_tracks env (mood_of theme_name) \<noteq> [] \<and>
    track_duration env (random_choice env (select_tracks env (mood_of theme_name))) = Inl e"
  then show "add_background_music env total_time theme_name = Inr VoiceOnly"
    by (simp add: add_background_music_unfold music_try_load_error)
next
  assume "select_tracks env (mood_of theme_name) \<noteq> [] \<and>
    music_try env (random_choice env (select_tracks env (mood_of theme_name))) total_time
      = Inl e"
  then show "add_background_music env total_time theme_name = Inr VoiceOnly"
    by (simp add: add_background_music_unfold)
next
  assume a: "select_tracks env (mood_of theme_name) \<noteq> [] \<and> compose_raises env = Some e"
  then obtain e' where
    "music_try env (random_choice env (select_tracks env (mood_of theme_name))) total_time
       = Inl e'"
    using music_try_compose_error by blast
  with a show "add_background_music env total_time theme_name = Inr VoiceOnly"
    by (simp add: add_background_music_unfold)
next
  assume "select_tracks env (mood_of theme_name) \<noteq> [] \<and>
    track_duration env (random_choice env (select_tracks env (mood_of theme_name))) = Inr d \<and>
    total_time \<le> d \<and> compose_raises env = None"
  then show "add_background_music env total_time theme_name = Inr (WithMusic
        \<lparr> bed_track = random_choice env (select_tracks env (mood_of theme_name)),
          bed_normalized =
            (\<not> normalize_raises env (random_choice env (select_tracks env (mood_of theme_name)))),
          bed_source_duration = d, bed_duration = total_time, bed_volume = 0.12 \<rparr>)"
    by (simp add: add_background_music_unfold music_try_cut)
qed

lemma mood_of_examples:
  "mood_of ''energetic_yellow'' = ''energetic''"
  "mood_of ''calm_blue'' = ''calm''"
  "mood_of ''no_such_theme'' = ''energetic''"
  by (simp_all add: mood_of_def get_theme_def getitem_def bind_err_def THEMES_def dict_get_def)

theorem background_music_degrades_witness:
  "select_tracks (music_env_example glob_energetic False False) (mood_of ''energetic_yellow'')
     = [''config/music/energetic/beat.mp3''] \<and>
   add_background_music (music_env_example glob_energetic False False) 5 ''energetic_yellow'' =
     Inr (WithMusic
       \<lparr> bed_track = ''config/music/energetic/beat.mp3'', bed_normalized = True,
         bed_source_duration = 10, bed_duration = 5, bed_volume = 0.12 \<rparr>) \<and>
   select_tracks (music_env_example glob_shared False False) (mood_of ''calm_blue'')
     = [''config/music/a.mp3''] \<and>
   add_background_music (music_env_example glob_shared False False) 5 ''calm_blue'' =
     Inr (WithMusic
       \<lparr> bed_track = ''config/music/a.mp3'', bed_normalized = True,
         bed_source_duration = 10, bed_duration = 5, bed_volume = 0.12 \<rparr>) \<and>
   select_tracks (music_env_example glob_nothing True False) (mood_of ''calm_blue'')
     = [''config/music.mp3''] \<and>
   add_background_music (music_env_example glob_nothing True False) 5 ''calm_blue'' =
     Inr (WithMusic
       \<lparr> bed_track = ''config/music.mp3'', bed_normalized = True,
         bed_source_duration = 10, bed_duration = 5, bed_volume = 0.12 \<rparr>) \<and>
   add_background_music (music_env_example glob_nothing False False) 5 ''calm_blue'' =
     Inr VoiceOnly \<and>
   add_background_music
     ((music_env_example glob_energetic False False)
        \<lparr> track_duration := (\<lambda>p. Inl (IOError p)) \<rparr>)
     5 ''energetic_yellow'' = Inr VoiceOnly \<and>
   add_background_music
     ((music_env_example glob_energetic False False)
        \<lparr> compose_raises := Some (IOError ''subclip'') \<rparr>)
     5 ''energetic_yellow'' = Inr VoiceOnly"
  using
    background_music_degrades [of "music_env_example glob_energetic False False" 5
      "''energetic_yellow''" "IOError []" 10]
    background_music_degrades [of "music_env_example glob_shared False False" 5
      "''calm_blue''" "IOError []" 10]
    background_music_degrades [of "music_env_example glob_nothing True False" 5
      "''calm_blue''" "IOError []" 10]
    background_music_degrades [of "music_env_example glob_nothing False False" 5
      "''calm_blue''" "IOError []" 10]
    background_music_degrades [of
      "(music_env_example glob_energetic False False)
         \<lparr> track_duration := (\<lambda>p. Inl (IOError p)) \<rparr>"
      5 "''energetic_yellow''" "IOError ''config/music/energetic/beat.mp3''" 10]
    background_music_degrades [of
      "(music_env_example glob_energetic False False)
         \<lparr> compose_raises := Some (IOError ''subclip'') \<rparr>"
      5 "''energetic_yellow''" "IOError ''subclip''" 10]
  by (simp add: mood_of_examples select_tracks_cases path_join_def music_env_example_def
      glob_energetic_def glob_shared_def glob_nothing_def)

end
